theory Spec2Isabelle
  imports Complex_Main
begin

section \<open>Numbers, vectors and the terrain\<close>

text \<open>
  The game (src/main.js) keeps all of its gameplay data in one mutable \<^verbatim>\<open>state\<close> object
  and a handful of module globals. JavaScript numbers are modelled by their ideal values:
  coordinates, velocities and timestamps are \<^typ>\<open>real\<close>, the integer-valued counters
  (health, ammunition, kills) are \<^typ>\<open>int\<close> or \<^typ>\<open>nat\<close>.

  \<^verbatim>\<open>THREE.Vector3\<close> is a triple of numbers; the operations below follow three.js:
  \<^verbatim>\<open>normalize()\<close> is \<^verbatim>\<open>divideScalar(length() || 1)\<close>, so the zero vector is left alone.
\<close>

datatype vec3 = Vector3 (vec_x: real) (vec_y: real) (vec_z: real)

definition js_or :: "real \<Rightarrow> real \<Rightarrow> real" where
  \<comment> \<open>\<^verbatim>\<open>a || b\<close> on numbers: \<^verbatim>\<open>0\<close> is the falsy one\<close>
  "js_or a b = (if a = 0 then b else a)"

definition lengthSq :: "vec3 \<Rightarrow> real" where
  "lengthSq v = vec_x v * vec_x v + vec_y v * vec_y v + vec_z v * vec_z v"

definition vlength :: "vec3 \<Rightarrow> real" where
  "vlength v = sqrt (vec_x v * vec_x v + vec_y v * vec_y v + vec_z v * vec_z v)"

definition multiplyScalar :: "vec3 \<Rightarrow> real \<Rightarrow> vec3" where
  "multiplyScalar v s = Vector3 (vec_x v * s) (vec_y v * s) (vec_z v * s)"

definition divideScalar :: "vec3 \<Rightarrow> real \<Rightarrow> vec3" where
  "divideScalar v s = multiplyScalar v (1 / s)"

definition normalize :: "vec3 \<Rightarrow> vec3" where
  "normalize v = divideScalar v (js_or (vlength v) 1)"

definition addVectors :: "vec3 \<Rightarrow> vec3 \<Rightarrow> vec3" where
  "addVectors a b = Vector3 (vec_x a + vec_x b) (vec_y a + vec_y b) (vec_z a + vec_z b)"

definition subVectors :: "vec3 \<Rightarrow> vec3 \<Rightarrow> vec3" where
  "subVectors a b = Vector3 (vec_x a - vec_x b) (vec_y a - vec_y b) (vec_z a - vec_z b)"

definition addScaledVector :: "vec3 \<Rightarrow> vec3 \<Rightarrow> real \<Rightarrow> vec3" where
  "addScaledVector p v s =
     Vector3 (vec_x p + vec_x v * s) (vec_y p + vec_y v * s) (vec_z p + vec_z v * s)"

definition crossVectors :: "vec3 \<Rightarrow> vec3 \<Rightarrow> vec3" where
  "crossVectors a b =
     Vector3 (vec_y a * vec_z b - vec_z a * vec_y b)
             (vec_z a * vec_x b - vec_x a * vec_z b)
             (vec_x a * vec_y b - vec_y a * vec_x b)"

definition getTerrainHeight :: "real \<Rightarrow> real \<Rightarrow> real" where
  "getTerrainHeight px pz =
     (sin (px * 0.01) + cos (pz * 0.01)) * 10 + (sin (px * 0.05) + cos (pz * 0.05)) * 2"

section \<open>Constants\<close>

definition PLAYER_RADIUS :: real where "PLAYER_RADIUS = 0.6"
definition ENEMY_RADIUS :: real where "ENEMY_RADIUS = 0.8"
definition ENEMY_MIN_DISTANCE_BUFFER :: real where "ENEMY_MIN_DISTANCE_BUFFER = 0.15"
definition PLAYER_ATTACK_DAMAGE :: int where "PLAYER_ATTACK_DAMAGE = 10"
definition PLAYER_MOVE_SPEED :: real where "PLAYER_MOVE_SPEED = 25"
definition PLAYER_SPRINT_SPEED :: real where "PLAYER_SPRINT_SPEED = 45"
definition ENEMY_BASE_SPEED :: real where "ENEMY_BASE_SPEED = 6"
definition ENEMY_RANDOM_SPEED :: real where "ENEMY_RANDOM_SPEED = 3"
definition INITIAL_ENEMY_COUNT :: int where "INITIAL_ENEMY_COUNT = 30"
definition MAX_ENEMIES :: int where "MAX_ENEMIES = 120"
definition WAVE_SIZE :: int where "WAVE_SIZE = 6"
definition WAVE_INTERVAL_MS :: real where "WAVE_INTERVAL_MS = 10000"

text \<open>
  \<^verbatim>\<open>state.maxHp\<close>, \<^verbatim>\<open>state.maxAmmo\<close> and \<^verbatim>\<open>state.shootCooldown\<close> are written once, in the
  object literal, and no statement of the program assigns them: they are constants here.
\<close>

definition maxHp :: int where "maxHp = 100"
definition maxAmmo :: int where "maxAmmo = 30"
definition shootCooldown :: real where "shootCooldown = 100"

section \<open>The data\<close>

text \<open>
  A scene object is known to the game by its identity and by its \<^verbatim>\<open>parent\<close> chain, which
  \<^verbatim>\<open>shoot\<close> walks. The chain is part of the value, so it is finite, as in three.js where the
  scene graph is a tree.
\<close>

datatype obj3d = Obj3d (oid: nat) (parent: "obj3d option")

definition scene_obj :: obj3d where
  "scene_obj = Obj3d 0 None"

text \<open>The record pushed by \<^verbatim>\<open>spawnEnemies\<close>; \<open>mesh_position\<close> is \<^verbatim>\<open>mesh.position\<close>.\<close>

record enemy =
  mesh :: obj3d
  mesh_position :: vec3
  speed :: real
  enemy_hp :: int
  attackCooldown :: real
  attackRate :: real
  radius :: real
  bodyMesh :: obj3d

record camera_obj =
  cam_position :: vec3
  cam_rotation :: vec3

text \<open>
  The callbacks handed to \<^verbatim>\<open>setTimeout\<close> and \<^verbatim>\<open>setInterval\<close> that change gameplay data.
  The purely visual ones (muzzle flash, hit marker, colour and scale pulses) and the writes
  to the page (health bar, ammunition counter, log, kill feed) are left out.
\<close>

datatype callback = ReloadDone | Respawn | Wave

datatype js_error = TypeError

text \<open>
  The \<^verbatim>\<open>state\<close> object, the module globals the gameplay functions read and write, and the
  host: pending timers (identifier, delay in ms, callback), the identifiers the host hands
  out, the stream of \<^verbatim>\<open>Math.random()\<close> results with a cursor, and the next fresh object
  identity. A global that is still \<^verbatim>\<open>undefined\<close> is \<open>None\<close> (\<open>False\<close> for \<open>scene\<close>, of which
  only the existence matters); \<open>playerObj\<close> is represented by its position and
  \<open>controls\<close> by its \<^verbatim>\<open>isLocked\<close> flag.
\<close>

record game =
  move_fwd :: bool
  move_bwd :: bool
  move_left :: bool
  move_right :: bool
  sprint :: bool
  onGround :: bool
  velocity :: vec3
  direction :: vec3
  hp :: int
  enemies :: "enemy list"
  ammo :: int
  reserveAmmo :: int
  reloading :: bool
  lastShot :: real
  kills :: nat
  scene :: bool
  camera :: "camera_obj option"
  controls :: "bool option"
  playerObj :: "vec3 option"
  prevTime :: real
  allowMouseDragFallback :: bool
  waveIntervalHandle :: "nat option"
  timeouts :: "(nat \<times> real \<times> callback) list"
  intervals :: "(nat \<times> real \<times> callback) list"
  timer_seq :: nat
  rand :: "nat \<Rightarrow> real"
  rand_ix :: nat
  next_obj :: nat

type_synonym result = "(js_error \<times> game) + game"

section \<open>Spawning\<close>

definition random :: "game \<Rightarrow> real \<times> game" where
  \<comment> \<open>one call of \<^verbatim>\<open>Math.random()\<close>\<close>
  "random st = (rand st (rand_ix st), st\<lparr>rand_ix := Suc (rand_ix st)\<rparr>)"

definition spawn_sign :: "real \<Rightarrow> game \<Rightarrow> real \<times> game" where
  \<comment> \<open>\<^verbatim>\<open>Math.sign(x) || (Math.random() < 0.5 ? -1 : 1)\<close>\<close>
  "spawn_sign v st =
     (if sgn v \<noteq> 0 then (sgn v, st)
      else (let (r, st') = random st in (if r < 0.5 then - 1 else 1, st')))"

definition spawn_place :: "game \<Rightarrow> (real \<times> real \<times> real) \<times> game" where
  \<comment> \<open>the first half of the loop body of \<^verbatim>\<open>spawnEnemies\<close>: the position \<open>(x, y, z)\<close>; the
      height is taken at the point drawn first, before it is pushed out of the centre\<close>
  "spawn_place st =
     (let (r1, st1) = random st;
          x0 = (r1 - 0.5) * 800;
          (r2, st2) = random st1;
          z0 = (r2 - 0.5) * 800;
          y0 = getTerrainHeight x0 z0
      in if \<bar>x0\<bar> < 50 \<and> \<bar>z0\<bar> < 50 then
           (let (signX, sa) = spawn_sign x0 st2;
                (signZ, sb) = spawn_sign z0 sa;
                (r3, sc) = random sb;
                (r4, sd) = random sc
            in ((signX * (50 + r3 * 200), y0, signZ * (50 + r4 * 200)), sd))
         else ((x0, y0, z0), st2))"

definition spawn_one :: "game \<Rightarrow> game" where
  \<comment> \<open>the body of the loop of \<^verbatim>\<open>spawnEnemies\<close>; the group takes a fresh identity, its eight
      meshes the next eight\<close>
  "spawn_one st =
     (let ((x1, y1, z1), st3) = spawn_place st;
          g = next_obj st3;
          enemyGroup = Obj3d g (Some scene_obj);
          body = Obj3d (g + 1) (Some enemyGroup);
          (r5, st4) = random st3;
          (r6, st5) = random st4
      in st5\<lparr>next_obj := g + 9,
              enemies := enemies st5 @
                [\<lparr>mesh = enemyGroup, mesh_position = Vector3 x1 y1 z1,
                  speed = ENEMY_BASE_SPEED + r5 * ENEMY_RANDOM_SPEED, enemy_hp = 100,
                  attackCooldown = 0, attackRate = 1.0 + r6 * 0.8,
                  radius = ENEMY_RADIUS, bodyMesh = body\<rparr>]\<rparr>)"

fun spawn_loop :: "nat \<Rightarrow> game \<Rightarrow> game" where
  "spawn_loop 0 st = st"
| "spawn_loop (Suc n) st = spawn_loop n (spawn_one st)"

definition spawnEnemies :: "int \<Rightarrow> game \<Rightarrow> game" where
  \<comment> \<open>\<open>count\<close> is a whole number; the loop \<^verbatim>\<open>for (i = 0; i < toSpawn; i++)\<close> runs
      \<open>nat toSpawn\<close> times\<close>
  "spawnEnemies count st =
     (if \<not> scene st then st
      else
        (let canSpawn = max 0 (MAX_ENEMIES - int (length (enemies st)));
             toSpawn = min count canSpawn
         in spawn_loop (nat toSpawn) st))"

section \<open>Timers\<close>

text \<open>
  \<^verbatim>\<open>setTimeout\<close>, \<^verbatim>\<open>setInterval\<close> and \<^verbatim>\<open>clearInterval\<close> of the host: a request is recorded with
  a fresh identifier; what the callback does when the host runs it is \<open>run_callback\<close> below.
\<close>

definition setTimeout :: "callback \<Rightarrow> real \<Rightarrow> game \<Rightarrow> game" where
  "setTimeout cb ms st =
     st\<lparr>timeouts := timeouts st @ [(timer_seq st, ms, cb)], timer_seq := Suc (timer_seq st)\<rparr>"

definition setInterval :: "callback \<Rightarrow> real \<Rightarrow> game \<Rightarrow> nat \<times> game" where
  "setInterval cb ms st =
     (timer_seq st,
      st\<lparr>intervals := intervals st @ [(timer_seq st, ms, cb)], timer_seq := Suc (timer_seq st)\<rparr>)"

definition clearInterval :: "nat \<Rightarrow> game \<Rightarrow> game" where
  "clearInterval h st = st\<lparr>intervals := filter (\<lambda>t. fst t \<noteq> h) (intervals st)\<rparr>"

definition startWaveSpawner :: "game \<Rightarrow> game" where
  "startWaveSpawner st =
     (let st1 = (case waveIntervalHandle st of
                   None \<Rightarrow> st
                 | Some h \<Rightarrow> if h \<noteq> 0 then clearInterval h st else st);
          (h', st2) = setInterval Wave WAVE_INTERVAL_MS st1
      in st2\<lparr>waveIntervalHandle := Some h'\<rparr>)"

section \<open>Ammunition and health\<close>

definition reload :: "game \<Rightarrow> game" where
  "reload st =
     (if reloading st then st
      else if ammo st = maxAmmo \<or> reserveAmmo st \<le> 0 then st
      else setTimeout ReloadDone 800 (st\<lparr>reloading := True\<rparr>))"

definition reload_done :: "game \<Rightarrow> game" where
  \<comment> \<open>the callback that \<^verbatim>\<open>reload\<close> hands to \<^verbatim>\<open>setTimeout\<close>\<close>
  "reload_done st =
     (let needed = maxAmmo - ammo st;
          taken = min needed (reserveAmmo st)
      in st\<lparr>ammo := ammo st + taken, reserveAmmo := reserveAmmo st - taken,
             reloading := False\<rparr>)"

definition applyDamageToPlayer :: "int \<Rightarrow> game \<Rightarrow> game" where
  "applyDamageToPlayer amount st =
     (let st1 = st\<lparr>hp := max 0 (hp st - amount)\<rparr>
      in if hp st1 \<le> 0 then setTimeout Respawn 2000 st1 else st1)"

definition resetGame :: "game \<Rightarrow> result" where
  \<comment> \<open>\<^verbatim>\<open>scene.remove\<close> on an \<^verbatim>\<open>undefined\<close> scene throws\<close>
  "resetGame st =
     (case playerObj st of
        None \<Rightarrow> Inr st
      | Some p \<Rightarrow>
          (let ground = getTerrainHeight 0 0;
               st1 = st\<lparr>playerObj := Some (Vector3 0 (ground + 0.1) 0), hp := maxHp\<rparr>
           in if enemies st1 \<noteq> [] \<and> \<not> scene st1 then Inl (TypeError, st1)
              else
                (let st2 = spawnEnemies INITIAL_ENEMY_COUNT (st1\<lparr>enemies := []\<rparr>);
                     st3 = st2\<lparr>velocity := Vector3 0 0 0, onGround := False\<rparr>;
                     st4 = (case camera st3 of
                              None \<Rightarrow> st3
                            | Some c \<Rightarrow>
                                st3\<lparr>camera := Some (c\<lparr>cam_rotation := Vector3 0 0 0\<rparr>)\<rparr>)
                 in Inr (startWaveSpawner st4))))"

definition run_callback :: "callback \<Rightarrow> game \<Rightarrow> result" where
  "run_callback cb st =
     (case cb of
        ReloadDone \<Rightarrow> Inr (reload_done st)
      | Respawn \<Rightarrow> resetGame st
      | Wave \<Rightarrow>
          Inr (if int (length (enemies st)) < MAX_ENEMIES then spawnEnemies WAVE_SIZE st
               else st))"

section \<open>Shooting\<close>

fun find_root :: "obj3d list \<Rightarrow> obj3d \<Rightarrow> obj3d option" where
  \<comment> \<open>\<^verbatim>\<open>while (root && !objs.includes(root)) root = root.parent\<close>; objects are compared by
      identity\<close>
  "find_root objs (Obj3d i p) =
     (if i \<in> set (map oid objs) then Some (Obj3d i p)
      else (case p of None \<Rightarrow> None | Some q \<Rightarrow> find_root objs q))"

fun damage_owner :: "obj3d \<Rightarrow> enemy list \<Rightarrow> enemy list" where
  \<comment> \<open>\<^verbatim>\<open>owner = state.enemies.find(e => e.mesh === root); if (owner) owner.hp -= 50\<close>\<close>
  "damage_owner rt [] = []"
| "damage_owner rt (e # es) =
     (if oid (mesh e) = oid rt then e\<lparr>enemy_hp := enemy_hp e - 50\<rparr> # es
      else e # damage_owner rt es)"

definition shoot :: "real \<Rightarrow> obj3d list \<Rightarrow> game \<Rightarrow> result" where
  \<comment> \<open>\<open>now\<close> is \<^verbatim>\<open>performance.now()\<close>; \<open>hits\<close> are the objects of the array that
      \<^verbatim>\<open>ray.intersectObjects(objs, true)\<close> returns, nearest first\<close>
  "shoot now hits st =
     (if now - lastShot st < shootCooldown then Inr st
      else if reloading st then Inr st
      else if ammo st \<le> 0 then Inr (reload st)
      else
        (let st1 = st\<lparr>lastShot := now, ammo := ammo st - 1\<rparr>
         in case camera st1 of
              None \<Rightarrow> Inl (TypeError, st1)
            | Some c \<Rightarrow>
                (case hits of
                   [] \<Rightarrow> Inr st1
                 | hit # rest \<Rightarrow>
                     (case find_root (map mesh (enemies st1)) hit of
                        None \<Rightarrow> Inr st1
                      | Some rt \<Rightarrow>
                          Inr (st1\<lparr>enemies := damage_owner rt (enemies st1)\<rparr>)))))"

section \<open>Keys and player movement\<close>

datatype key = KeyW | KeyS | KeyA | KeyD | ShiftLeft | Space | KeyE | KeyR | OtherKey

definition onKey :: "key \<Rightarrow> bool \<Rightarrow> game \<Rightarrow> game" where
  "onKey code pressed st =
     (case code of
        KeyW \<Rightarrow> st\<lparr>move_fwd := pressed\<rparr>
      | KeyS \<Rightarrow> st\<lparr>move_bwd := pressed\<rparr>
      | KeyA \<Rightarrow> st\<lparr>move_left := pressed\<rparr>
      | KeyD \<Rightarrow> st\<lparr>move_right := pressed\<rparr>
      | ShiftLeft \<Rightarrow> st\<lparr>sprint := pressed\<rparr>
      | Space \<Rightarrow>
          if pressed \<and> onGround st
          then st\<lparr>velocity := Vector3 (vec_x (velocity st)) 15 (vec_z (velocity st))\<rparr>
          else st
      | KeyE \<Rightarrow> st
      | KeyR \<Rightarrow> if pressed then reload st else st
      | OtherKey \<Rightarrow> st)"

definition Number :: "bool \<Rightarrow> real" where
  "Number b = (if b then 1 else 0)"

definition accelerate :: "real \<Rightarrow> game \<Rightarrow> game" where
  \<comment> \<open>the first half of \<^verbatim>\<open>updatePlayerMovement\<close>: damping, gravity and the movement keys\<close>
  "accelerate delta st =
     (let v = velocity st;
          vx1 = vec_x v - vec_x v * 10.0 * delta;
          vz1 = vec_z v - vec_z v * 10.0 * delta;
          vy1 = vec_y v - 30.0 * delta;
          d0 = Vector3 (Number (move_right st) - Number (move_left st))
                       (vec_y (direction st))
                       (Number (move_fwd st) - Number (move_bwd st));
          d = (if lengthSq d0 > 0 then normalize d0 else d0);
          spd = (if sprint st then PLAYER_SPRINT_SPEED else PLAYER_MOVE_SPEED);
          vz2 = (if move_fwd st \<or> move_bwd st then vz1 - vec_z d * spd * delta else vz1);
          vx2 = (if move_left st \<or> move_right st then vx1 - vec_x d * spd * delta else vx1)
      in st\<lparr>velocity := Vector3 vx2 vy1 vz2, direction := d\<rparr>)"

definition integrate :: "real \<Rightarrow> vec3 \<Rightarrow> game \<Rightarrow> result" where
  \<comment> \<open>the second half: the position moves along the camera's horizontal axes and is clamped
      to the ground; \<open>look\<close> is the vector \<^verbatim>\<open>new THREE.Vector3(0, 0, -1).applyEuler(euler)\<close>
      that three.js computes from \<^verbatim>\<open>camera.quaternion\<close>\<close>
  "integrate delta look st =
     (case camera st of
        None \<Rightarrow> Inl (TypeError, st)
      | Some c \<Rightarrow>
          (let forward = normalize (Vector3 (vec_x look) 0 (vec_z look));
               right = crossVectors forward (Vector3 0 1 0)
           in case playerObj st of
                None \<Rightarrow> Inl (TypeError, st)
              | Some p0 \<Rightarrow>
                  (let p1 = addScaledVector p0 forward (- vec_z (velocity st) * delta);
                       p2 = addScaledVector p1 right (- vec_x (velocity st) * delta);
                       p3 = Vector3 (vec_x p2) (vec_y p2 + vec_y (velocity st) * delta) (vec_z p2);
                       groundHeight = getTerrainHeight (vec_x p3) (vec_z p3)
                   in if vec_y p3 < groundHeight
                      then Inr (st\<lparr>velocity :=
                                      Vector3 (vec_x (velocity st)) 0 (vec_z (velocity st)),
                                    playerObj :=
                                      Some (Vector3 (vec_x p3) groundHeight (vec_z p3)),
                                    onGround := True\<rparr>)
                      else Inr (st\<lparr>playerObj := Some p3, onGround := False\<rparr>))))"

definition updatePlayerMovement :: "real \<Rightarrow> vec3 \<Rightarrow> game \<Rightarrow> result" where
  "updatePlayerMovement delta look st =
     (if (controls st = None \<or> controls st = Some False) \<and> \<not> allowMouseDragFallback st
      then Inr st
      else integrate delta look (accelerate delta st))"

definition updateCamera :: "game \<Rightarrow> game" where
  "updateCamera st =
     (case (playerObj st, camera st) of
        (Some p, Some c) \<Rightarrow>
          st\<lparr>camera := Some (c\<lparr>cam_position := addVectors p (Vector3 0 1.6 0)\<rparr>)\<rparr>
      | _ \<Rightarrow> st)"

section \<open>Enemies\<close>

definition sep_pair :: "nat \<Rightarrow> nat \<Rightarrow> enemy list \<Rightarrow> enemy list" where
  \<comment> \<open>the body of the inner loop of the separation pass, for the pair \<open>(i, j)\<close>\<close>
  "sep_pair i j es =
     (let a = es ! i;
          b = es ! j;
          diff = subVectors (mesh_position a) (mesh_position b);
          dist = vlength diff;
          mn = js_or (radius a) ENEMY_RADIUS + js_or (radius b) ENEMY_RADIUS + 0.05
      in if dist > 0 \<and> dist < mn then
           (let push = multiplyScalar (normalize diff) ((mn - dist) * 0.5)
            in es[i := a\<lparr>mesh_position := addVectors (mesh_position a) push\<rparr>,
                  j := b\<lparr>mesh_position := subVectors (mesh_position b) push\<rparr>])
         else es)"

definition separation :: "enemy list \<Rightarrow> enemy list" where
  "separation es =
     fold (\<lambda>i acc. fold (\<lambda>j acc'. sep_pair i j acc') [Suc i ..< length es] acc)
          [0 ..< length es] es"

definition enemy_ai :: "real \<Rightarrow> vec3 \<Rightarrow> enemy \<Rightarrow> enemy \<times> bool" where
  \<comment> \<open>what one pass of the second loop of \<^verbatim>\<open>updateEnemies\<close> does to the enemy itself; the
      flag says whether it calls \<^verbatim>\<open>applyDamageToPlayer\<close>\<close>
  "enemy_ai delta playerPos e =
     (let cd = max 0 (js_or (attackCooldown e) 0 - delta);
          dir = subVectors playerPos (mesh_position e);
          dist = vlength dir;
          minDist = js_or (radius e) ENEMY_RADIUS + PLAYER_RADIUS + ENEMY_MIN_DISTANCE_BUFFER
      in if dist > minDist then
           (e\<lparr>attackCooldown := cd,
              mesh_position := addScaledVector (mesh_position e) (normalize dir) (speed e * delta)\<rparr>,
            False)
         else
           (let pos = (if dist > 0.001 then addScaledVector playerPos (normalize dir) (- minDist)
                       else mesh_position e)
            in if cd \<le> 0 then (e\<lparr>attackCooldown := attackRate e, mesh_position := pos\<rparr>, True)
               else (e\<lparr>attackCooldown := cd, mesh_position := pos\<rparr>, False)))"

definition enemy_step :: "real \<Rightarrow> vec3 \<Rightarrow> nat \<Rightarrow> game \<Rightarrow> result" where
  \<comment> \<open>one pass of the second loop, for index \<open>i\<close>: the enemy's move, its attack, and the
      removal of a dead enemy (\<^verbatim>\<open>scene.remove\<close>, \<^verbatim>\<open>splice\<close>, \<^verbatim>\<open>kills++\<close>)\<close>
  "enemy_step delta playerPos i st =
     (let (e', attack) = enemy_ai delta playerPos (enemies st ! i);
          st1 = (if attack then applyDamageToPlayer PLAYER_ATTACK_DAMAGE st else st);
          st2 = st1\<lparr>enemies := (enemies st1)[i := e']\<rparr>
      in if enemy_hp e' \<le> 0 then
           (if \<not> scene st2 then Inl (TypeError, st2)
            else Inr (st2\<lparr>enemies := take i (enemies st2) @ drop (Suc i) (enemies st2),
                          kills := Suc (kills st2)\<rparr>))
         else Inr st2)"

fun enemy_loop :: "real \<Rightarrow> vec3 \<Rightarrow> nat \<Rightarrow> game \<Rightarrow> result" where
  \<comment> \<open>\<^verbatim>\<open>for (let i = n - 1; i >= 0; i--)\<close>: \<open>enemy_loop delta playerPos n\<close> runs the indices
      below \<open>n\<close>, highest first\<close>
  "enemy_loop delta playerPos 0 st = Inr st"
| "enemy_loop delta playerPos (Suc i) st =
     (case enemy_step delta playerPos i st of
        Inl err \<Rightarrow> Inl err
      | Inr st' \<Rightarrow> enemy_loop delta playerPos i st')"

definition updateEnemies :: "real \<Rightarrow> game \<Rightarrow> result" where
  "updateEnemies delta st =
     (case playerObj st of
        None \<Rightarrow> Inr st
      | Some playerPos \<Rightarrow>
          (let st1 = st\<lparr>enemies := separation (enemies st)\<rparr>
           in enemy_loop delta playerPos (length (enemies st1)) st1))"

section \<open>The frame loop\<close>

definition animate :: "real \<Rightarrow> vec3 \<Rightarrow> game \<Rightarrow> game" where
  \<comment> \<open>one frame at \<^verbatim>\<open>performance.now() = time\<close>; an exception is caught and logged, and the
      frame ends there\<close>
  "animate time look st =
     (let delta = (time - prevTime st) / 1000;
          st1 = st\<lparr>prevTime := time\<rparr>
      in case updatePlayerMovement delta look st1 of
           Inl (err, s) \<Rightarrow> s
         | Inr s \<Rightarrow>
             (case updateEnemies delta s of
                Inl (err, s') \<Rightarrow> s'
              | Inr s' \<Rightarrow> updateCamera s'))"

section \<open>Example states\<close>

text \<open>
  The \<^verbatim>\<open>state\<close> literal of the source, in a game that has been started: scene, camera,
  player and controls exist, the pointer is locked, the wave timer runs, and the player
  stands on the ground at the origin, where the terrain is 12 high.
\<close>

definition grunt :: "nat \<Rightarrow> vec3 \<Rightarrow> enemy" where
  "grunt g pos =
     \<lparr>mesh = Obj3d g (Some scene_obj), mesh_position = pos, speed = 6, enemy_hp = 100,
      attackCooldown = 0, attackRate = 1, radius = ENEMY_RADIUS,
      bodyMesh = Obj3d (g + 1) (Some (Obj3d g (Some scene_obj)))\<rparr>"

definition arena :: "enemy list \<Rightarrow> game" where
  "arena es =
     \<lparr>move_fwd = False, move_bwd = False, move_left = False, move_right = False,
      sprint = False, onGround = False, velocity = Vector3 0 0 0, direction = Vector3 0 0 0,
      hp = 100, enemies = es, ammo = 30, reserveAmmo = 90, reloading = False, lastShot = 0,
      kills = 0, scene = True,
      camera = Some \<lparr>cam_position = Vector3 0 13.6 0, cam_rotation = Vector3 0 0 0\<rparr>,
      controls = Some True, playerObj = Some (Vector3 0 12 0), prevTime = 0,
      allowMouseDragFallback = False, waveIntervalHandle = Some 1, timeouts = [],
      intervals = [(1, WAVE_INTERVAL_MS, Wave)], timer_seq = 2, rand = (\<lambda>n. 3 / 4),
      rand_ix = 0, next_obj = 1 + 9 * length es\<rparr>"

definition crowd :: "nat \<Rightarrow> enemy list" where
  "crowd n = map (\<lambda>i. grunt (1 + 9 * i) (Vector3 (100 + real i) 0 0)) [0 ..< n]"

definition state_of :: "result \<Rightarrow> game" where
  \<comment> \<open>the state a call leaves behind, whether it returns or throws\<close>
  "state_of r = (case r of Inl (err, s) \<Rightarrow> s | Inr s \<Rightarrow> s)"

definition dry :: game where
  \<comment> \<open>an empty magazine, the last shot fired at 1000 ms\<close>
  "dry = (arena [])\<lparr>ammo := 0, lastShot := 1000\<rparr>"

definition trio :: "enemy list" where
  \<comment> \<open>three enemies, with the identities that \<open>spawn_one\<close> gives the first three groups\<close>
  "trio = [grunt 1 (Vector3 0 12 (- 20)), grunt 10 (Vector3 0 12 (- 30)), grunt 19 (Vector3 40 0 0)]"

definition ids_ok :: "game \<Rightarrow> bool" where
  \<comment> \<open>every enemy has a group of its own, older than the next fresh identity\<close>
  "ids_ok st \<longleftrightarrow>
     distinct (map (oid \<circ> mesh) (enemies st)) \<and>
     list_all (\<lambda>e. oid (mesh e) < next_obj st) (enemies st)"

definition coasting :: game where
  \<comment> \<open>no movement key is down and the player still drifts\<close>
  "coasting = (arena [])\<lparr>velocity := Vector3 1 0 (- 2)\<rparr>"

definition braking :: game where
  \<comment> \<open>forward and backward are both held down and the player still drifts\<close>
  "braking = (arena [])\<lparr>velocity := Vector3 1 0 (- 2), move_fwd := True, move_bwd := True\<rparr>"

definition standing :: game where
  \<comment> \<open>the player stands on the ground\<close>
  "standing = (arena [])\<lparr>onGround := True\<rparr>"

definition wounded :: game where
  \<comment> \<open>a game in progress: one more attack kills the player\<close>
  "wounded = (arena trio)\<lparr>hp := 10, kills := 4, ammo := 7, reserveAmmo := 60\<rparr>"





section \<open>Facts about spawning\<close>

lemma random_frame:
  "random st = (r, st') \<Longrightarrow> st' = st\<lparr>rand_ix := Suc (rand_ix st)\<rparr>"
  by (auto simp: random_def)

lemma spawn_sign_frame:
  "spawn_sign v st = (s, st') \<Longrightarrow> \<exists>k. st' = st\<lparr>rand_ix := k\<rparr>"
  by (auto simp: spawn_sign_def random_def Let_def split: if_splits intro: exI[of _ "rand_ix st"])

lemma spawn_place_frame:
  assumes "spawn_place st = (p, st')"
  shows "\<exists>k. st' = st\<lparr>rand_ix := k\<rparr>"
proof -
  obtain r1 st1 where a: "random st = (r1, st1)" by fastforce
  obtain r2 st2 where b: "random st1 = (r2, st2)" by fastforce
  have st2: "st2 = st\<lparr>rand_ix := Suc (Suc (rand_ix st))\<rparr>"
    using random_frame[OF a] random_frame[OF b] by simp
  show ?thesis
  proof (cases "\<bar>(r1 - 0.5) * 800\<bar> < 50 \<and> \<bar>(r2 - 0.5) * 800\<bar> < 50")
    case False
    then have "spawn_place st = (((r1 - 0.5) * 800, getTerrainHeight ((r1 - 0.5) * 800) ((r2 - 0.5) * 800), (r2 - 0.5) * 800), st2)"
      by (auto simp add: spawn_place_def a b Let_def)
    with assms st2 show ?thesis by auto
  next
    case True
    obtain sx sa where c: "spawn_sign ((r1 - 0.5) * 800) st2 = (sx, sa)" by fastforce
    obtain sz sb where d: "spawn_sign ((r2 - 0.5) * 800) sa = (sz, sb)" by fastforce
    obtain r3 sc where e: "random sb = (r3, sc)" by fastforce
    obtain r4 sd where f: "random sc = (r4, sd)" by fastforce
    from True have "snd (spawn_place st) = sd"
      by (simp add: spawn_place_def a b c[simplified] d[simplified] e f Let_def)
    with assms have g: "st' = sd" by simp
    obtain ka where "sa = st2\<lparr>rand_ix := ka\<rparr>" using spawn_sign_frame[OF c] by blast
    moreover obtain kb where "sb = sa\<lparr>rand_ix := kb\<rparr>" using spawn_sign_frame[OF d] by blast
    ultimately have "sd = st\<lparr>rand_ix := Suc (Suc kb)\<rparr>"
      using random_frame[OF e] random_frame[OF f] st2 by simp
    with g show ?thesis by blast
  qed
qed

lemma spawn_one_shape:
  "\<exists>k e. spawn_one st = st\<lparr>rand_ix := k, next_obj := next_obj st + 9, enemies := enemies st @ [e]\<rparr>
     \<and> mesh e = Obj3d (next_obj st) (Some scene_obj) \<and> enemy_hp e = 100"
proof -
  obtain x1 y1 z1 st3 where a: "spawn_place st = ((x1, y1, z1), st3)"
    by (metis prod.exhaust)
  obtain k where k: "st3 = st\<lparr>rand_ix := k\<rparr>" using spawn_place_frame[OF a] by blast
  define e where "e = \<lparr>mesh = Obj3d (next_obj st) (Some scene_obj), mesh_position = Vector3 x1 y1 z1,
      speed = ENEMY_BASE_SPEED + rand st k * ENEMY_RANDOM_SPEED, enemy_hp = 100,
      attackCooldown = 0, attackRate = 1.0 + rand st (Suc k) * 0.8,
      radius = ENEMY_RADIUS,
      bodyMesh = Obj3d (next_obj st + 1) (Some (Obj3d (next_obj st) (Some scene_obj)))\<rparr>"
  have "spawn_one st = st\<lparr>rand_ix := Suc (Suc k), next_obj := next_obj st + 9, enemies := enemies st @ [e]\<rparr>"
    unfolding spawn_one_def e_def by (simp add: a random_def Let_def k)
  moreover have "mesh e = Obj3d (next_obj st) (Some scene_obj) \<and> enemy_hp e = 100"
    by (simp add: e_def)
  ultimately show ?thesis by blast
qed

lemma spawn_loop_shape:
  "\<exists>k new. spawn_loop n st = st\<lparr>rand_ix := k, next_obj := next_obj st + 9 * n, enemies := enemies st @ new\<rparr>
     \<and> length new = n"
proof (induction n arbitrary: st)
  case 0
  have "st = st\<lparr>rand_ix := rand_ix st, next_obj := next_obj st + 9 * 0, enemies := enemies st @ []\<rparr>" by simp
  then show ?case by (metis spawn_loop.simps(1) list.size(3))
next
  case (Suc n)
  obtain k e where e: "spawn_one st = st\<lparr>rand_ix := k, next_obj := next_obj st + 9, enemies := enemies st @ [e]\<rparr>"
    using spawn_one_shape by blast
  obtain k' new where n: "spawn_loop n (spawn_one st) = (spawn_one st)\<lparr>rand_ix := k', next_obj := next_obj (spawn_one st) + 9 * n, enemies := enemies (spawn_one st) @ new\<rparr>" "length new = n"
    using Suc.IH by blast
  have "spawn_loop (Suc n) st = st\<lparr>rand_ix := k', next_obj := next_obj st + 9 * Suc n, enemies := enemies st @ (e # new)\<rparr>"
    using n(1) by (simp add: e)
  moreover have "length (e # new) = Suc n" using n(2) by simp
  ultimately show ?case by blast
qed


lemma spawnEnemies_shape:
  "\<exists>k m new. spawnEnemies c st = st\<lparr>rand_ix := k, next_obj := m, enemies := enemies st @ new\<rparr>
     \<and> length new = (if scene st then nat (min c (max 0 (MAX_ENEMIES - int (length (enemies st))))) else 0)"
proof (cases "scene st")
  case False
  have "st = st\<lparr>rand_ix := rand_ix st, next_obj := next_obj st, enemies := enemies st @ []\<rparr>" by simp
  with False show ?thesis unfolding spawnEnemies_def by (metis list.size(3))
next
  case True
  define n where "n = nat (min c (max 0 (MAX_ENEMIES - int (length (enemies st)))))"
  obtain k new where "spawn_loop n st = st\<lparr>rand_ix := k, next_obj := next_obj st + 9 * n, enemies := enemies st @ new\<rparr>"
    and "length new = n"
    using spawn_loop_shape by blast
  moreover have "spawnEnemies c st = spawn_loop n st"
    using True by (simp add: spawnEnemies_def n_def)
  ultimately show ?thesis using True n_def by auto
qed

lemma spawnEnemies_length_le:
  assumes "length (enemies st) \<le> 120"
  shows "length (enemies (spawnEnemies c st)) \<le> 120"
proof -
  obtain k m new where a: "spawnEnemies c st = st\<lparr>rand_ix := k, next_obj := m, enemies := enemies st @ new\<rparr>"
    and b: "length new = (if scene st then nat (min c (max 0 (MAX_ENEMIES - int (length (enemies st))))) else 0)"
    using spawnEnemies_shape by blast
  from b assms have "length new \<le> 120 - length (enemies st)"
    by (simp add: MAX_ENEMIES_def split: if_splits)
  with assms show ?thesis by (simp add: a)
qed

lemma spawn_calls_length_le:
  "length (enemies st) \<le> 120 \<Longrightarrow> length (enemies (foldl (\<lambda>s c. spawnEnemies c s) st counts)) \<le> 120"
  by (induction counts arbitrary: st) (simp_all add: spawnEnemies_length_le)

section \<open>The spawn cap\<close>

text \<open>
  C1. For every call \<^verbatim>\<open>spawnEnemies(count)\<close> and every number \<open>n\<close> of live enemies, exactly
  \<open>min(count, 120 - n)\<close> new enemies are added, none when \<open>n \<ge> 120\<close>, and the enemies already
  there stay as they are; so no sequence of spawn calls takes the number of live enemies
  above 120; and \<^verbatim>\<open>spawnEnemies(6)\<close> with 118 enemies live creates exactly 2. The scene exists
  at every call site of the program, and the counts passed are 30 and 6.
\<close>

theorem spawnEnemies_respects_cap:
  "(scene st \<and> 0 \<le> count \<longrightarrow>
      (\<exists>new. enemies (spawnEnemies count st) = enemies st @ new \<and>
         int (length new) =
           (if 120 \<le> length (enemies st) then 0
            else min count (120 - int (length (enemies st))))))
   \<and> (length (enemies st) \<le> 120 \<longrightarrow>
        length (enemies (foldl (\<lambda>s c. spawnEnemies c s) st counts)) \<le> 120)
   \<and> (scene st \<and> length (enemies st) = 118 \<longrightarrow>
        (\<exists>new. enemies (spawnEnemies 6 st) = enemies st @ new \<and> length new = 2))"
proof (intro conjI impI)
  assume h: "scene st \<and> 0 \<le> count"
  obtain k m new where a: "spawnEnemies count st = st\<lparr>rand_ix := k, next_obj := m, enemies := enemies st @ new\<rparr>"
    and b: "length new = (if scene st then nat (min count (max 0 (MAX_ENEMIES - int (length (enemies st))))) else 0)"
    using spawnEnemies_shape by blast
  have "enemies (spawnEnemies count st) = enemies st @ new" by (simp add: a)
  moreover have "int (length new) =
           (if 120 \<le> length (enemies st) then 0
            else min count (120 - int (length (enemies st))))"
    using h b by (simp add: MAX_ENEMIES_def)
  ultimately show "\<exists>new. enemies (spawnEnemies count st) = enemies st @ new \<and>
         int (length new) =
           (if 120 \<le> length (enemies st) then 0
            else min count (120 - int (length (enemies st))))" by blast
next
  assume "length (enemies st) \<le> 120"
  then show "length (enemies (foldl (\<lambda>s c. spawnEnemies c s) st counts)) \<le> 120"
    by (rule spawn_calls_length_le)
next
  assume h: "scene st \<and> length (enemies st) = 118"
  obtain k m new where a: "spawnEnemies 6 st = st\<lparr>rand_ix := k, next_obj := m, enemies := enemies st @ new\<rparr>"
    and b: "length new = (if scene st then nat (min 6 (max 0 (MAX_ENEMIES - int (length (enemies st))))) else 0)"
    using spawnEnemies_shape by blast
  have "enemies (spawnEnemies 6 st) = enemies st @ new" by (simp add: a)
  moreover have "length new = 2" using h b by (simp add: MAX_ENEMIES_def)
  ultimately show "\<exists>new. enemies (spawnEnemies 6 st) = enemies st @ new \<and> length new = 2" by blast
qed

theorem spawnEnemies_respects_cap_witness:
  "scene (arena (crowd 118)) \<and> length (enemies (arena (crowd 118))) = 118
   \<and> (\<exists>new. enemies (spawnEnemies 6 (arena (crowd 118))) = enemies (arena (crowd 118)) @ new
        \<and> length new = 2)
   \<and> (\<exists>new. enemies (spawnEnemies 30 (arena (crowd 118))) = enemies (arena (crowd 118)) @ new
        \<and> int (length new) = 2)
   \<and> length (enemies (foldl (\<lambda>s c. spawnEnemies c s) (arena (crowd 118)) [6, 30, 6])) \<le> 120"
  using spawnEnemies_respects_cap [of "arena (crowd 118)" 6 "[6, 30, 6]"]
        spawnEnemies_respects_cap [of "arena (crowd 118)" 30 "[]"]
  by (simp add: arena_def crowd_def)


section \<open>Facts about shooting and reloading\<close>

lemma reload_ammo: "ammo (reload st) = ammo st" "lastShot (reload st) = lastShot st"
  by (simp_all add: reload_def setTimeout_def)

lemma shoot_accepted_fields:
  assumes "100 \<le> now - lastShot st" "\<not> reloading st" "0 < ammo st"
  shows "ammo (state_of (shoot now hits st)) = ammo st - 1"
    and "lastShot (state_of (shoot now hits st)) = now"
    and "reloading (state_of (shoot now hits st)) = reloading st"
    and "camera st \<noteq> None \<Longrightarrow> \<exists>s. shoot now hits st = Inr s"
  using assms
  by (auto simp: shoot_def shootCooldown_def state_of_def Let_def split: option.splits list.splits)

text \<open>
  C3, as amended. A fire request is accepted, that is, takes one round from the magazine, if
  and only if \<open>now - lastShot \<ge> 100\<close> ms, the reloading flag is false and \<open>ammo > 0\<close>; on
  acceptance \<open>lastShot\<close> becomes \<open>now\<close>, otherwise it keeps its value; a fire request with the
  magazine at 0 that has passed the rate limit and the reloading check calls \<^verbatim>\<open>reload\<close>
  instead of shooting; a second fire request 50 ms after an accepted one changes nothing.
\<close>

theorem shoot_rate_limit:
  "((ammo (state_of (shoot now hits st)) = ammo st - 1) \<longleftrightarrow>
      (100 \<le> now - lastShot st \<and> \<not> reloading st \<and> 0 < ammo st))
   \<and> (100 \<le> now - lastShot st \<and> \<not> reloading st \<and> 0 < ammo st \<longrightarrow>
        lastShot (state_of (shoot now hits st)) = now
        \<and> (camera st \<noteq> None \<longrightarrow> (\<exists>s. shoot now hits st = Inr s)))
   \<and> (\<not> (100 \<le> now - lastShot st \<and> \<not> reloading st \<and> 0 < ammo st) \<longrightarrow>
        lastShot (state_of (shoot now hits st)) = lastShot st)
   \<and> (100 \<le> now - lastShot st \<and> \<not> reloading st \<and> ammo st = 0 \<longrightarrow>
        shoot now hits st = Inr (reload st))
   \<and> (100 \<le> now - lastShot st \<and> \<not> reloading st \<and> 0 < ammo st \<longrightarrow>
        shoot (now + 50) hits' (state_of (shoot now hits st)) = Inr (state_of (shoot now hits st)))"
proof (intro conjI impI)
  show "(ammo (state_of (shoot now hits st)) = ammo st - 1) \<longleftrightarrow>
      (100 \<le> now - lastShot st \<and> \<not> reloading st \<and> 0 < ammo st)"
  proof
    assume "100 \<le> now - lastShot st \<and> \<not> reloading st \<and> 0 < ammo st"
    then show "ammo (state_of (shoot now hits st)) = ammo st - 1"
      by (simp add: shoot_accepted_fields)
  next
    assume a: "ammo (state_of (shoot now hits st)) = ammo st - 1"
    show "100 \<le> now - lastShot st \<and> \<not> reloading st \<and> 0 < ammo st"
    proof (rule ccontr)
      assume "\<not> ?thesis"
      then have "shoot now hits st = Inr st \<or> shoot now hits st = Inr (reload st)"
        by (auto simp: shoot_def shootCooldown_def)
      then have "ammo (state_of (shoot now hits st)) = ammo st"
        by (auto simp: state_of_def reload_ammo)
      with a show False by simp
    qed
  qed
next
  assume "100 \<le> now - lastShot st \<and> \<not> reloading st \<and> 0 < ammo st"
  then show "lastShot (state_of (shoot now hits st)) = now"
    by (simp add: shoot_accepted_fields)
next
  assume "100 \<le> now - lastShot st \<and> \<not> reloading st \<and> 0 < ammo st" "camera st \<noteq> None"
  then show "\<exists>s. shoot now hits st = Inr s"
    by (simp add: shoot_accepted_fields)
next
  assume "\<not> (100 \<le> now - lastShot st \<and> \<not> reloading st \<and> 0 < ammo st)"
  then have "shoot now hits st = Inr st \<or> shoot now hits st = Inr (reload st)"
    by (auto simp: shoot_def shootCooldown_def)
  then show "lastShot (state_of (shoot now hits st)) = lastShot st"
    by (auto simp: state_of_def reload_ammo)
next
  assume "100 \<le> now - lastShot st \<and> \<not> reloading st \<and> ammo st = 0"
  then show "shoot now hits st = Inr (reload st)"
    by (simp add: shoot_def shootCooldown_def)
next
  assume a: "100 \<le> now - lastShot st \<and> \<not> reloading st \<and> 0 < ammo st"
  then have "lastShot (state_of (shoot now hits st)) = now"
    by (simp add: shoot_accepted_fields)
  then show "shoot (now + 50) hits' (state_of (shoot now hits st)) = Inr (state_of (shoot now hits st))"
    by (simp add: shoot_def shootCooldown_def)
qed

theorem shoot_rate_limit_witness:
  "ammo (state_of (shoot 150 [] (arena []))) = 29
   \<and> lastShot (state_of (shoot 150 [] (arena []))) = 150
   \<and> (\<exists>s. shoot 150 [] (arena []) = Inr s)
   \<and> shoot 200 [] (state_of (shoot 150 [] (arena []))) = Inr (state_of (shoot 150 [] (arena [])))
   \<and> lastShot (state_of (shoot 50 [] (arena []))) = 0
   \<and> shoot 150 [] ((arena [])\<lparr>ammo := 0\<rparr>) = Inr (reload ((arena [])\<lparr>ammo := 0\<rparr>))"
  using shoot_rate_limit [of 150 "[]" "arena []" "[]"]
        shoot_rate_limit [of 50 "[]" "arena []" "[]"]
        shoot_rate_limit [of 150 "[]" "(arena [])\<lparr>ammo := 0\<rparr>" "[]"]
  by (simp add: arena_def)

text \<open>
  C3 as stated fails: with the magazine at 0, a fire request 50 ms after the last shot
  returns at the rate limit; no reload is started, although \<^verbatim>\<open>reload\<close> would have started one.
\<close>

theorem shoot_empty_magazine_counterexample:
  "ammo dry = 0 \<and> shoot 1050 [] dry = Inr dry \<and> timeouts dry = [] \<and> \<not> reloading dry
   \<and> reloading (reload dry) \<and> timeouts (reload dry) = [(2, 800, ReloadDone)]"
  by (simp add: dry_def arena_def shoot_def shootCooldown_def reload_def maxAmmo_def setTimeout_def)

text \<open>
  C9. In \<^verbatim>\<open>shoot\<close> the rate limit and the reloading check come before the check of the
  magazine: a fire request with the magazine at 0, made less than 100 ms after the last
  accepted shot or while the reloading flag is set, returns without calling \<^verbatim>\<open>reload\<close> and
  leaves the whole state as it was.
\<close>

theorem shoot_guards_before_reload:
  assumes "ammo st = 0" and "now - lastShot st < 100 \<or> reloading st"
  shows "shoot now hits st = Inr st"
  using assms by (auto simp: shoot_def shootCooldown_def)

theorem shoot_guards_before_reload_witness:
  "ammo ((arena [])\<lparr>ammo := 0, lastShot := 400\<rparr>) = 0
   \<and> (460 - lastShot ((arena [])\<lparr>ammo := 0, lastShot := 400\<rparr>) < 100)
   \<and> shoot 460 [] ((arena [])\<lparr>ammo := 0, lastShot := 400\<rparr>) = Inr ((arena [])\<lparr>ammo := 0, lastShot := 400\<rparr>)
   \<and> reloading ((arena [])\<lparr>ammo := 0, reloading := True\<rparr>)
   \<and> shoot 460 [] ((arena [])\<lparr>ammo := 0, reloading := True\<rparr>) = Inr ((arena [])\<lparr>ammo := 0, reloading := True\<rparr>)"
  using shoot_guards_before_reload [of "(arena [])\<lparr>ammo := 0, lastShot := 400\<rparr>" 460 "[]"]
        shoot_guards_before_reload [of "(arena [])\<lparr>ammo := 0, reloading := True\<rparr>" 460 "[]"]
  by (simp add: arena_def)

text \<open>
  C4. A reload request changes nothing when the reloading flag is set, when the magazine
  holds 30, or when the reserve is 0; otherwise it sets the reloading flag and asks the host
  to run the completion after 800 ms. The completion adds \<open>min(30 - ammo, reserveAmmo)\<close> to the
  magazine, takes the same amount from the reserve and clears the flag, so their sum is
  kept and the magazine holds at most 30. The reserve is never negative: it starts at 90 and
  the completion keeps it at 0 or above.
\<close>

theorem reload_state_machine:
  assumes "0 \<le> reserveAmmo st"
  shows "(reloading st \<or> ammo st = 30 \<or> reserveAmmo st = 0 \<longrightarrow> reload st = st)
   \<and> (\<not> (reloading st \<or> ammo st = 30 \<or> reserveAmmo st = 0) \<longrightarrow>
        reload st = st\<lparr>reloading := True,
                      timeouts := timeouts st @ [(timer_seq st, 800, ReloadDone)],
                      timer_seq := Suc (timer_seq st)\<rparr>)
   \<and> run_callback ReloadDone st =
        Inr (st\<lparr>ammo := ammo st + min (30 - ammo st) (reserveAmmo st),
                reserveAmmo := reserveAmmo st - min (30 - ammo st) (reserveAmmo st),
                reloading := False\<rparr>)
   \<and> ammo (reload_done st) + reserveAmmo (reload_done st) = ammo st + reserveAmmo st
   \<and> ammo (reload_done st) \<le> 30
   \<and> 0 \<le> reserveAmmo (reload_done st)"
  using assms
  by (auto simp: reload_def reload_done_def run_callback_def maxAmmo_def setTimeout_def Let_def)

theorem reload_state_machine_witness:
  "0 \<le> reserveAmmo ((arena [])\<lparr>ammo := 12, reserveAmmo := 7\<rparr>)
   \<and> reload ((arena [])\<lparr>ammo := 12, reserveAmmo := 7\<rparr>) =
       (arena [])\<lparr>ammo := 12, reserveAmmo := 7, reloading := True,
                  timeouts := [(2, 800, ReloadDone)], timer_seq := 3\<rparr>
   \<and> run_callback ReloadDone ((arena [])\<lparr>ammo := 12, reserveAmmo := 7, reloading := True\<rparr>) =
       Inr ((arena [])\<lparr>ammo := 19, reserveAmmo := 0, reloading := False\<rparr>)
   \<and> reload (arena []) = arena []"
  using reload_state_machine [of "(arena [])\<lparr>ammo := 12, reserveAmmo := 7\<rparr>"]
        reload_state_machine [of "(arena [])\<lparr>ammo := 12, reserveAmmo := 7, reloading := True\<rparr>"]
        reload_state_machine [of "arena []"]
  by (simp add: arena_def)

section \<open>Facts about the owner of a hit\<close>

lemma damage_owner_other:
  "oid rt \<notin> set (map (oid \<circ> mesh) es) \<Longrightarrow> damage_owner rt es = es"
  by (induction es) auto

lemma damage_owner_nth:
  "distinct (map (oid \<circ> mesh) es) \<Longrightarrow> k < length es \<Longrightarrow>
   damage_owner (mesh (es ! k)) es = es[k := (es ! k)\<lparr>enemy_hp := enemy_hp (es ! k) - 50\<rparr>]"
proof (induction es arbitrary: k)
  case Nil
  then show ?case by simp
next
  case (Cons e es)
  show ?case
  proof (cases k)
    case 0
    then show ?thesis by simp
  next
    case (Suc j)
    with Cons.prems have j: "j < length es" by simp
    then have "oid (mesh (es ! j)) \<in> set (map (oid \<circ> mesh) es)" by auto
    with Cons.prems have "oid (mesh e) \<noteq> oid (mesh (es ! j))" by auto
    with Cons Suc j show ?thesis by simp
  qed
qed

lemma find_root_child:
  assumes "parent h = Some g" and "oid h \<notin> set (map oid objs)" and "oid g \<in> set (map oid objs)"
  shows "find_root objs h = Some g"
proof -
  obtain i p where h: "h = Obj3d i p" by (cases h)
  obtain j q where g: "g = Obj3d j q" by (cases g)
  from assms show ?thesis by (simp add: h g)
qed

lemma spawn_one_ids_ok:
  assumes "ids_ok st"
  shows "ids_ok (spawn_one st)"
proof -
  obtain k e where a: "spawn_one st = st\<lparr>rand_ix := k, next_obj := next_obj st + 9, enemies := enemies st @ [e]\<rparr>"
    and b: "mesh e = Obj3d (next_obj st) (Some scene_obj)"
    using spawn_one_shape by blast
  from assms have "oid (mesh e) \<notin> set (map (oid \<circ> mesh) (enemies st))"
    by (auto simp: ids_ok_def b list_all_iff)
  with assms show ?thesis
    by (auto simp: ids_ok_def a b list_all_iff)
qed

lemma spawn_loop_ids_ok: "ids_ok st \<Longrightarrow> ids_ok (spawn_loop n st)"
  by (induction n arbitrary: st) (simp_all add: spawn_one_ids_ok)

lemma spawnEnemies_ids_ok: "ids_ok st \<Longrightarrow> ids_ok (spawnEnemies c st)"
  by (simp add: spawnEnemies_def Let_def spawn_loop_ids_ok)

text \<open>
  C2. For every accepted shot: if the ray meets a part of a live enemy, then the enemy that
  owns the nearest part met, and no other, has its health reduced by exactly 50; if the ray
  meets nothing, no enemy's health changes. A part is a mesh added to the enemy's group; the
  groups of the live enemies are pairwise different objects, which \<open>spawnEnemies\<close> keeps so
  (\<open>spawnEnemies_ids_ok\<close>).
\<close>

theorem shoot_hits_one_enemy:
  assumes "100 \<le> now - lastShot st" and "\<not> reloading st" and "0 < ammo st"
    and "camera st \<noteq> None"
    and "distinct (map (oid \<circ> mesh) (enemies st))"
  shows "(hits \<noteq> [] \<and> k < length (enemies st)
            \<and> parent (hd hits) = Some (mesh (enemies st ! k))
            \<and> oid (hd hits) \<notin> set (map (oid \<circ> mesh) (enemies st)) \<longrightarrow>
          (\<exists>s. shoot now hits st = Inr s
             \<and> enemies s =
                 (enemies st)[k := (enemies st ! k)\<lparr>enemy_hp := enemy_hp (enemies st ! k) - 50\<rparr>]))
       \<and> (hits = [] \<longrightarrow> (\<exists>s. shoot now hits st = Inr s \<and> enemies s = enemies st))"
proof (intro conjI impI)
  assume h: "hits \<noteq> [] \<and> k < length (enemies st)
            \<and> parent (hd hits) = Some (mesh (enemies st ! k))
            \<and> oid (hd hits) \<notin> set (map (oid \<circ> mesh) (enemies st))"
  then obtain hit rest where hits: "hits = hit # rest" by (cases hits) auto
  from assms(4) obtain c where c: "camera st = Some c" by auto
  have "oid (mesh (enemies st ! k)) \<in> set (map oid (map mesh (enemies st)))"
    using h by auto
  moreover have "oid hit \<notin> set (map oid (map mesh (enemies st)))"
    using h hits by simp
  ultimately have root: "find_root (map mesh (enemies st)) hit = Some (mesh (enemies st ! k))"
    using h hits by (intro find_root_child) simp_all
  have "shoot now hits st =
      Inr (st\<lparr>lastShot := now, ammo := ammo st - 1,
               enemies := damage_owner (mesh (enemies st ! k)) (enemies st)\<rparr>)"
    using assms(1-3) by (simp add: shoot_def shootCooldown_def c hits root)
  then show "\<exists>s. shoot now hits st = Inr s
             \<and> enemies s =
                 (enemies st)[k := (enemies st ! k)\<lparr>enemy_hp := enemy_hp (enemies st ! k) - 50\<rparr>]"
    using damage_owner_nth[OF assms(5), of k] h by simp
next
  assume "hits = []"
  with assms show "\<exists>s. shoot now hits st = Inr s \<and> enemies s = enemies st"
    by (auto simp: shoot_def shootCooldown_def)
qed

theorem shoot_hits_one_enemy_witness:
  "(\<exists>s. shoot 500 [Obj3d 12 (Some (Obj3d 10 (Some scene_obj))), Obj3d 2 (Some (Obj3d 1 (Some scene_obj)))]
           (arena trio) = Inr s
      \<and> map enemy_hp (enemies s) = [100, 50, 100])
   \<and> (\<exists>s. shoot 500 [] (arena trio) = Inr s \<and> map enemy_hp (enemies s) = [100, 100, 100])"
  using shoot_hits_one_enemy [of 500 "arena trio"
          "[Obj3d 12 (Some (Obj3d 10 (Some scene_obj))), Obj3d 2 (Some (Obj3d 1 (Some scene_obj)))]" 1]
        shoot_hits_one_enemy [of 500 "arena trio" "[]" 0]
  by (auto simp: arena_def trio_def grunt_def)

section \<open>Facts about player movement\<close>

lemma getTerrainHeight_origin: "getTerrainHeight 0 0 = 12"
  by (simp add: getTerrainHeight_def)

lemma accelerate_frame:
  "\<exists>v d. accelerate delta st = st\<lparr>velocity := v, direction := d\<rparr>"
  unfolding accelerate_def Let_def by blast

lemma accelerate_vy: "vec_y (velocity (accelerate delta st)) = vec_y (velocity st) - 30 * delta"
  by (simp add: accelerate_def Let_def)

lemma accelerate_vx_idle:
  "\<not> move_left st \<Longrightarrow> \<not> move_right st \<Longrightarrow>
   vec_x (velocity (accelerate delta st)) = vec_x (velocity st) * (1 - 10 * delta)"
  by (simp add: accelerate_def Let_def algebra_simps)

lemma accelerate_vz_idle:
  "\<not> move_fwd st \<Longrightarrow> \<not> move_bwd st \<Longrightarrow>
   vec_z (velocity (accelerate delta st)) = vec_z (velocity st) * (1 - 10 * delta)"
  by (simp add: accelerate_def Let_def algebra_simps)

lemma integrate_velocity_xz:
  "vec_x (velocity (state_of (integrate delta look st))) = vec_x (velocity st)"
  "vec_z (velocity (state_of (integrate delta look st))) = vec_z (velocity st)"
  by (simp_all add: integrate_def state_of_def Let_def split: option.splits)

lemma integrate_flags:
  "move_fwd (state_of (integrate delta look st)) = move_fwd st"
  "move_bwd (state_of (integrate delta look st)) = move_bwd st"
  "move_left (state_of (integrate delta look st)) = move_left st"
  "move_right (state_of (integrate delta look st)) = move_right st"
  by (simp_all add: integrate_def state_of_def Let_def split: option.splits)


lemma accelerate_fields:
  "enemies (accelerate delta st) = enemies st"
  "camera (accelerate delta st) = camera st"
  "playerObj (accelerate delta st) = playerObj st"
  "move_fwd (accelerate delta st) = move_fwd st"
  "move_bwd (accelerate delta st) = move_bwd st"
  "move_left (accelerate delta st) = move_left st"
  "move_right (accelerate delta st) = move_right st"
  by (simp_all add: accelerate_def Let_def)

lemma integrate_enemies:
  "enemies (state_of (integrate delta look st)) = enemies st"
  by (simp add: integrate_def state_of_def Let_def split: option.splits)

lemma forward_y: "vec_y (normalize (Vector3 a 0 b)) = 0"
  by (simp add: normalize_def divideScalar_def multiplyScalar_def)

lemma right_y: "vec_y (crossVectors f (Vector3 0 1 0)) = 0"
  by (simp add: crossVectors_def)

lemma integrate_clamp:
  assumes "camera st = Some c" and "playerObj st = Some p0"
  shows "\<exists>s p. integrate delta look st = Inr s \<and> playerObj s = Some p
     \<and> enemies s = enemies st
     \<and> vec_x (velocity s) = vec_x (velocity st) \<and> vec_z (velocity s) = vec_z (velocity st)
     \<and> (vec_x (velocity st) = 0 \<and> vec_z (velocity st) = 0 \<longrightarrow>
          vec_x p = vec_x p0 \<and> vec_z p = vec_z p0)
     \<and> (vec_y p0 + vec_y (velocity st) * delta < getTerrainHeight (vec_x p) (vec_z p) \<longrightarrow>
          vec_y p = getTerrainHeight (vec_x p) (vec_z p) \<and> vec_y (velocity s) = 0 \<and> onGround s)
     \<and> (\<not> vec_y p0 + vec_y (velocity st) * delta < getTerrainHeight (vec_x p) (vec_z p) \<longrightarrow>
          vec_y p = vec_y p0 + vec_y (velocity st) * delta \<and> vec_y (velocity s) = vec_y (velocity st)
          \<and> \<not> onGround s)"
proof -
  define forward where "forward = normalize (Vector3 (vec_x look) 0 (vec_z look))"
  define right where "right = crossVectors forward (Vector3 0 1 0)"
  define p2 where "p2 = addScaledVector (addScaledVector p0 forward (- vec_z (velocity st) * delta))
                          right (- vec_x (velocity st) * delta)"
  define p3 where "p3 = Vector3 (vec_x p2) (vec_y p2 + vec_y (velocity st) * delta) (vec_z p2)"
  define H where "H = getTerrainHeight (vec_x p3) (vec_z p3)"
  have y2: "vec_y p2 = vec_y p0"
    by (simp add: p2_def addScaledVector_def forward_def right_def forward_y right_y)
  have xz: "vec_x (velocity st) = 0 \<and> vec_z (velocity st) = 0 \<longrightarrow>
          vec_x p2 = vec_x p0 \<and> vec_z p2 = vec_z p0"
    by (simp add: p2_def addScaledVector_def)
  have eq: "integrate delta look st =
      (if vec_y p3 < H
       then Inr (st\<lparr>velocity := Vector3 (vec_x (velocity st)) 0 (vec_z (velocity st)),
                     playerObj := Some (Vector3 (vec_x p3) H (vec_z p3)),
                     onGround := True\<rparr>)
       else Inr (st\<lparr>playerObj := Some p3, onGround := False\<rparr>))"
    by (simp add: integrate_def assms Let_def forward_def right_def p2_def p3_def H_def)
  show ?thesis
  proof (cases "vec_y p3 < H")
    case True
    then show ?thesis
      using eq y2 xz by (simp add: p3_def H_def)
  next
    case False
    then show ?thesis
      using eq y2 xz by (simp add: p3_def H_def)
  qed
qed

lemma updateEnemies_no_enemies: "enemies st = [] \<Longrightarrow> updateEnemies delta st = Inr st"
  by (simp add: updateEnemies_def separation_def split: option.splits)

lemma updateCamera_fields:
  "velocity (updateCamera st) = velocity st" "onGround (updateCamera st) = onGround st"
  by (simp_all add: updateCamera_def split: option.splits)

lemma upm_run:
  "controls st = Some True \<or> allowMouseDragFallback st \<Longrightarrow>
   updatePlayerMovement delta look st = integrate delta look (accelerate delta st)"
  by (auto simp: updatePlayerMovement_def)

lemma upm_paused:
  "\<not> (controls st = Some True \<or> allowMouseDragFallback st) \<Longrightarrow>
   updatePlayerMovement delta look st = Inr st"
  by (cases "controls st") (auto simp: updatePlayerMovement_def)

lemma upm_enemies: "enemies (state_of (updatePlayerMovement delta look st)) = enemies st"
proof (cases "controls st = Some True \<or> allowMouseDragFallback st")
  case True
  then show ?thesis by (simp add: upm_run integrate_enemies accelerate_fields)
next
  case False
  then show ?thesis by (simp add: upm_paused state_of_def)
qed

lemma animate_no_enemies:
  assumes "enemies st = []"
  shows "velocity (animate t look st) =
           velocity (state_of (updatePlayerMovement ((t - prevTime st) / 1000) look (st\<lparr>prevTime := t\<rparr>)))"
    and "onGround (animate t look st) =
           onGround (state_of (updatePlayerMovement ((t - prevTime st) / 1000) look (st\<lparr>prevTime := t\<rparr>)))"
proof -
  define r where "r = updatePlayerMovement ((t - prevTime st) / 1000) look (st\<lparr>prevTime := t\<rparr>)"
  have e: "enemies (state_of r) = []"
    unfolding r_def using assms by (simp add: upm_enemies)
  have "velocity (animate t look st) = velocity (state_of r)
      \<and> onGround (animate t look st) = onGround (state_of r)"
  proof (cases r)
    case (Inl a)
    then show ?thesis
      by (cases a) (simp add: animate_def Let_def r_def[symmetric] state_of_def)
  next
    case (Inr s)
    with e have "enemies s = []" by (simp add: state_of_def)
    then show ?thesis
      using Inr by (simp add: animate_def Let_def r_def[symmetric] state_of_def
          updateEnemies_no_enemies updateCamera_fields)
  qed
  then show "velocity (animate t look st) =
           velocity (state_of (updatePlayerMovement ((t - prevTime st) / 1000) look (st\<lparr>prevTime := t\<rparr>)))"
    and "onGround (animate t look st) =
           onGround (state_of (updatePlayerMovement ((t - prevTime st) / 1000) look (st\<lparr>prevTime := t\<rparr>)))"
    by (simp_all add: r_def)
qed

lemma upm_velocity_idle:
  assumes "\<not> move_left st" "\<not> move_right st" "\<not> move_fwd st" "\<not> move_bwd st"
    and "controls st = Some True \<or> allowMouseDragFallback st"
  shows "vec_x (velocity (state_of (updatePlayerMovement delta look st))) = vec_x (velocity st) * (1 - 10 * delta)"
    and "vec_z (velocity (state_of (updatePlayerMovement delta look st))) = vec_z (velocity st) * (1 - 10 * delta)"
  using assms(1-4)
  by (simp_all add: upm_run[OF assms(5)] integrate_velocity_xz accelerate_vx_idle accelerate_vz_idle)

lemma damp_component:
  fixes v k :: real
  assumes "0 \<le> k" "k \<le> 1"
  shows "\<bar>v * k\<bar> \<le> \<bar>v\<bar> \<and> (sgn (v * k) = sgn v \<or> v * k = 0)"
proof -
  have "\<bar>v * k\<bar> = \<bar>v\<bar> * k" using assms by (simp add: abs_mult)
  also have "\<dots> \<le> \<bar>v\<bar> * 1" using assms by (intro mult_left_mono) simp_all
  finally have a: "\<bar>v * k\<bar> \<le> \<bar>v\<bar>" by simp
  have "sgn (v * k) = sgn v \<or> v * k = 0"
  proof (cases "k = 0")
    case True then show ?thesis by simp
  next
    case False
    with assms have "0 < k" by simp
    then show ?thesis by (simp add: sgn_mult)
  qed
  with a show ?thesis by simp
qed

lemma accelerate_vx_balanced:
  "move_left st = move_right st \<Longrightarrow>
   vec_x (velocity (accelerate delta st)) = vec_x (velocity st) * (1 - 10 * delta)"
  by (simp add: accelerate_def Let_def Number_def normalize_def divideScalar_def
      multiplyScalar_def algebra_simps)

lemma accelerate_vz_balanced:
  "move_fwd st = move_bwd st \<Longrightarrow>
   vec_z (velocity (accelerate delta st)) = vec_z (velocity st) * (1 - 10 * delta)"
  by (simp add: accelerate_def Let_def Number_def normalize_def divideScalar_def
      multiplyScalar_def algebra_simps)

lemma upm_flags:
  "move_fwd (state_of (updatePlayerMovement delta look st)) = move_fwd st"
  "move_bwd (state_of (updatePlayerMovement delta look st)) = move_bwd st"
  "move_left (state_of (updatePlayerMovement delta look st)) = move_left st"
  "move_right (state_of (updatePlayerMovement delta look st)) = move_right st"
proof -
  show "move_fwd (state_of (updatePlayerMovement delta look st)) = move_fwd st"
    by (cases "controls st = Some True \<or> allowMouseDragFallback st")
       (simp_all add: upm_run upm_paused integrate_flags accelerate_fields, simp add: state_of_def)
  show "move_bwd (state_of (updatePlayerMovement delta look st)) = move_bwd st"
    by (cases "controls st = Some True \<or> allowMouseDragFallback st")
       (simp_all add: upm_run upm_paused integrate_flags accelerate_fields, simp add: state_of_def)
  show "move_left (state_of (updatePlayerMovement delta look st)) = move_left st"
    by (cases "controls st = Some True \<or> allowMouseDragFallback st")
       (simp_all add: upm_run upm_paused integrate_flags accelerate_fields, simp add: state_of_def)
  show "move_right (state_of (updatePlayerMovement delta look st)) = move_right st"
    by (cases "controls st = Some True \<or> allowMouseDragFallback st")
       (simp_all add: upm_run upm_paused integrate_flags accelerate_fields, simp add: state_of_def)
qed

lemma upm_vx_balanced:
  assumes "move_left st = move_right st"
  shows "vec_x (velocity (state_of (updatePlayerMovement delta look st))) =
           (if controls st = Some True \<or> allowMouseDragFallback st
            then vec_x (velocity st) * (1 - 10 * delta) else vec_x (velocity st))"
proof (cases "controls st = Some True \<or> allowMouseDragFallback st")
  case True
  then show ?thesis
    using assms by (simp add: upm_run integrate_velocity_xz accelerate_vx_balanced)
next
  case False
  then show ?thesis by (simp add: upm_paused state_of_def)
qed

lemma upm_vz_balanced:
  assumes "move_fwd st = move_bwd st"
  shows "vec_z (velocity (state_of (updatePlayerMovement delta look st))) =
           (if controls st = Some True \<or> allowMouseDragFallback st
            then vec_z (velocity st) * (1 - 10 * delta) else vec_z (velocity st))"
proof (cases "controls st = Some True \<or> allowMouseDragFallback st")
  case True
  then show ?thesis
    using assms by (simp add: upm_run integrate_velocity_xz accelerate_vz_balanced)
next
  case False
  then show ?thesis by (simp add: upm_paused state_of_def)
qed

lemma damp_component_or_keep:
  fixes v k :: real
  assumes "0 \<le> k" "k \<le> 1"
  shows "\<bar>(if b then v * k else v)\<bar> \<le> \<bar>v\<bar>
       \<and> (sgn (if b then v * k else v) = sgn v \<or> (if b then v * k else v) = 0)"
  using damp_component[OF assms, of v] by simp

text \<open>
  C5, as amended. For every \<open>\<Delta>t\<close> with \<open>0 \<le> \<Delta>t \<le> 0.099\<close>, a Player Movement tick takes a
  horizontal velocity component on whose axis there is no movement intent (its two keys are
  both up or both down) towards zero without a sign flip: the new component has the sign of
  the old one or is zero, and is no larger in magnitude. The keys stay as they are, so the
  same holds for the ticks that follow. The component is at most \<open>10\<^sup>3\<^sup>0\<^sup>0\<close> in magnitude, so that
  ten times it is still a finite number of the program; the bound 0.099 leaves room for the
  rounding of the product \<open>v \<sqdot> 10 \<sqdot> \<Delta>t\<close>, which at \<open>\<Delta>t = 0.1\<close> can come out above \<open>v\<close>.
\<close>

theorem damping_without_sign_flip:
  assumes "0 \<le> delta" and "delta \<le> 99 / 1000"
  shows "(move_left st = move_right st \<and> \<bar>vec_x (velocity st)\<bar> \<le> 10 ^ 300 \<longrightarrow>
           \<bar>vec_x (velocity (state_of (updatePlayerMovement delta look st)))\<bar>
             \<le> \<bar>vec_x (velocity st)\<bar>
           \<and> (sgn (vec_x (velocity (state_of (updatePlayerMovement delta look st))))
                 = sgn (vec_x (velocity st))
                \<or> vec_x (velocity (state_of (updatePlayerMovement delta look st))) = 0))
     \<and> (move_fwd st = move_bwd st \<and> \<bar>vec_z (velocity st)\<bar> \<le> 10 ^ 300 \<longrightarrow>
           \<bar>vec_z (velocity (state_of (updatePlayerMovement delta look st)))\<bar>
             \<le> \<bar>vec_z (velocity st)\<bar>
           \<and> (sgn (vec_z (velocity (state_of (updatePlayerMovement delta look st))))
                 = sgn (vec_z (velocity st))
                \<or> vec_z (velocity (state_of (updatePlayerMovement delta look st))) = 0))
     \<and> move_fwd (state_of (updatePlayerMovement delta look st)) = move_fwd st
     \<and> move_bwd (state_of (updatePlayerMovement delta look st)) = move_bwd st
     \<and> move_left (state_of (updatePlayerMovement delta look st)) = move_left st
     \<and> move_right (state_of (updatePlayerMovement delta look st)) = move_right st"
proof -
  have k: "0 \<le> 1 - 10 * delta" "1 - 10 * delta \<le> 1" using assms by simp_all
  have x: "\<bar>vec_x (velocity (state_of (updatePlayerMovement delta look st)))\<bar>
             \<le> \<bar>vec_x (velocity st)\<bar>
           \<and> (sgn (vec_x (velocity (state_of (updatePlayerMovement delta look st))))
                 = sgn (vec_x (velocity st))
                \<or> vec_x (velocity (state_of (updatePlayerMovement delta look st))) = 0)"
    if "move_left st = move_right st"
    unfolding upm_vx_balanced[OF that] by (rule damp_component_or_keep[OF k])
  have z: "\<bar>vec_z (velocity (state_of (updatePlayerMovement delta look st)))\<bar>
             \<le> \<bar>vec_z (velocity st)\<bar>
           \<and> (sgn (vec_z (velocity (state_of (updatePlayerMovement delta look st))))
                 = sgn (vec_z (velocity st))
                \<or> vec_z (velocity (state_of (updatePlayerMovement delta look st))) = 0)"
    if "move_fwd st = move_bwd st"
    unfolding upm_vz_balanced[OF that] by (rule damp_component_or_keep[OF k])
  from x z show ?thesis by (simp add: upm_flags)
qed

theorem damping_without_sign_flip_witness:
  "move_left braking = move_right braking \<and> move_fwd braking = move_bwd braking
   \<and> move_fwd braking \<and> velocity braking = Vector3 1 0 (- 2)
   \<and> \<bar>vec_x (velocity (state_of (updatePlayerMovement (1 / 16) (Vector3 0 0 (- 1)) braking)))\<bar> \<le> 1
   \<and> (sgn (vec_x (velocity (state_of (updatePlayerMovement (1 / 16) (Vector3 0 0 (- 1)) braking)))) = 1
        \<or> vec_x (velocity (state_of (updatePlayerMovement (1 / 16) (Vector3 0 0 (- 1)) braking))) = 0)
   \<and> \<bar>vec_z (velocity (state_of (updatePlayerMovement (1 / 16) (Vector3 0 0 (- 1)) braking)))\<bar> \<le> 2
   \<and> (sgn (vec_z (velocity (state_of (updatePlayerMovement (1 / 16) (Vector3 0 0 (- 1)) braking)))) = - 1
        \<or> vec_z (velocity (state_of (updatePlayerMovement (1 / 16) (Vector3 0 0 (- 1)) braking))) = 0)"
proof -
  have h: "move_left braking = move_right braking" "move_fwd braking = move_bwd braking"
    "move_fwd braking" "velocity braking = Vector3 1 0 (- 2)"
    "\<bar>vec_x (velocity braking)\<bar> \<le> 10 ^ 300" "\<bar>vec_z (velocity braking)\<bar> \<le> 10 ^ 300"
    "vec_x (velocity braking) = 1" "vec_z (velocity braking) = - 2"
    by (simp_all add: braking_def arena_def)
  have d: "(0::real) \<le> 1 / 16" "(1::real) / 16 \<le> 99 / 1000" by simp_all
  note t = damping_without_sign_flip [OF d, of braking "Vector3 0 0 (- 1)"]
  from t h(1,5) have x:
    "\<bar>vec_x (velocity (state_of (updatePlayerMovement (1 / 16) (Vector3 0 0 (- 1)) braking)))\<bar>
       \<le> \<bar>vec_x (velocity braking)\<bar>"
    "sgn (vec_x (velocity (state_of (updatePlayerMovement (1 / 16) (Vector3 0 0 (- 1)) braking))))
       = sgn (vec_x (velocity braking))
     \<or> vec_x (velocity (state_of (updatePlayerMovement (1 / 16) (Vector3 0 0 (- 1)) braking))) = 0"
    by blast+
  from t h(2,6) have z:
    "\<bar>vec_z (velocity (state_of (updatePlayerMovement (1 / 16) (Vector3 0 0 (- 1)) braking)))\<bar>
       \<le> \<bar>vec_z (velocity braking)\<bar>"
    "sgn (vec_z (velocity (state_of (updatePlayerMovement (1 / 16) (Vector3 0 0 (- 1)) braking))))
       = sgn (vec_z (velocity braking))
     \<or> vec_z (velocity (state_of (updatePlayerMovement (1 / 16) (Vector3 0 0 (- 1)) braking))) = 0"
    by blast+
  from x z h show ?thesis by (simp add: h(7,8))
qed

text \<open>
  C5 as stated fails: the frame loop passes the elapsed time on as it is. A frame 250 ms
  after the last one gives \<open>\<Delta>t = 0.25\<close>, and the velocity \<open>(1, 0, -2)\<close> becomes \<open>(-1.5, _, 3)\<close>:
  both components change sign and grow.
\<close>

theorem damping_sign_flip_counterexample:
  "\<not> move_fwd coasting \<and> \<not> move_bwd coasting \<and> \<not> move_left coasting \<and> \<not> move_right coasting
   \<and> prevTime coasting = 0
   \<and> velocity coasting = Vector3 1 0 (- 2)
   \<and> vec_x (velocity (animate 250 (Vector3 0 0 (- 1)) coasting)) = - 3 / 2
   \<and> vec_z (velocity (animate 250 (Vector3 0 0 (- 1)) coasting)) = 3"
proof -
  have e: "enemies coasting = []" by (simp add: coasting_def arena_def)
  have g: "controls (coasting\<lparr>prevTime := 250\<rparr>) = Some True
             \<or> allowMouseDragFallback (coasting\<lparr>prevTime := 250\<rparr>)"
    by (simp add: coasting_def arena_def)
  have f: "\<not> move_left (coasting\<lparr>prevTime := 250\<rparr>)" "\<not> move_right (coasting\<lparr>prevTime := 250\<rparr>)"
    "\<not> move_fwd (coasting\<lparr>prevTime := 250\<rparr>)" "\<not> move_bwd (coasting\<lparr>prevTime := 250\<rparr>)"
    by (simp_all add: coasting_def arena_def)
  have p: "(250 - prevTime coasting) / 1000 = 1 / 4" by (simp add: coasting_def arena_def)
  show ?thesis
    using upm_velocity_idle[OF f g, of "1 / 4" "Vector3 0 0 (- 1)"]
    by (simp add: animate_no_enemies[OF e] p) (simp add: coasting_def arena_def)
qed

lemma upm_clamp:
  assumes "controls st = Some True \<or> allowMouseDragFallback st"
    and "camera st = Some c" and "playerObj st = Some p0"
  shows "\<exists>s p. updatePlayerMovement delta look st = Inr s \<and> playerObj s = Some p
     \<and> ((\<not> move_left st \<and> \<not> move_right st \<and> \<not> move_fwd st \<and> \<not> move_bwd st
          \<and> vec_x (velocity st) = 0 \<and> vec_z (velocity st) = 0) \<longrightarrow>
          vec_x p = vec_x p0 \<and> vec_z p = vec_z p0)
     \<and> (vec_y p0 + (vec_y (velocity st) - 30 * delta) * delta < getTerrainHeight (vec_x p) (vec_z p) \<longrightarrow>
          vec_y p = getTerrainHeight (vec_x p) (vec_z p) \<and> vec_y (velocity s) = 0 \<and> onGround s)
     \<and> (\<not> vec_y p0 + (vec_y (velocity st) - 30 * delta) * delta < getTerrainHeight (vec_x p) (vec_z p) \<longrightarrow>
          vec_y p = vec_y p0 + (vec_y (velocity st) - 30 * delta) * delta
          \<and> vec_y (velocity s) = vec_y (velocity st) - 30 * delta \<and> \<not> onGround s)"
proof -
  have c: "camera (accelerate delta st) = Some c" and p: "playerObj (accelerate delta st) = Some p0"
    using assms by (simp_all add: accelerate_fields)
  have idle: "(\<not> move_left st \<and> \<not> move_right st \<and> \<not> move_fwd st \<and> \<not> move_bwd st
          \<and> vec_x (velocity st) = 0 \<and> vec_z (velocity st) = 0) \<longrightarrow>
          vec_x (velocity (accelerate delta st)) = 0 \<and> vec_z (velocity (accelerate delta st)) = 0"
    by (simp add: accelerate_vx_idle accelerate_vz_idle)
  show ?thesis
    using integrate_clamp[OF c p, of delta look] idle
    by (simp add: upm_run[OF assms(1)] accelerate_vy) blast
qed

lemma onKey_Space:
  "onKey Space pressed st =
     (if pressed \<and> onGround st
      then st\<lparr>velocity := Vector3 (vec_x (velocity st)) 15 (vec_z (velocity st))\<rparr> else st)"
  by (simp add: onKey_def)

text \<open>
  C6, as amended. A Player Movement tick that is skipped, because the pointer is not locked
  and the fallback is off, changes nothing. After every tick that runs: if the integrated
  height \<open>y + (v\<^sub>y - 30 \<Delta>t) \<Delta>t\<close> is below the terrain at the player's new horizontal coordinates,
  the player's height is exactly the terrain height there, the vertical velocity is 0 and
  the grounded flag is true; otherwise the grounded flag is false. A jump request while
  grounded sets the vertical velocity to 15 and changes nothing else; a jump request while
  not grounded changes nothing. After a jump, the grounded flag is false on the next tick
  that runs when the integrated height is not below the terrain, as it is for a player who
  stood still on the ground whenever \<open>0 \<le> \<Delta>t \<le> 0.5\<close>.
\<close>

theorem ground_clamp_and_jump:
  "(\<not> (controls st = Some True \<or> allowMouseDragFallback st) \<longrightarrow>
      updatePlayerMovement delta look st = Inr st)
   \<and> ((controls st = Some True \<or> allowMouseDragFallback st)
        \<and> camera st = Some c \<and> playerObj st = Some p0 \<longrightarrow>
        (\<exists>s p. updatePlayerMovement delta look st = Inr s \<and> playerObj s = Some p
           \<and> (vec_y p0 + (vec_y (velocity st) - 30 * delta) * delta
                 < getTerrainHeight (vec_x p) (vec_z p) \<longrightarrow>
               vec_y p = getTerrainHeight (vec_x p) (vec_z p)
               \<and> vec_y (velocity s) = 0 \<and> onGround s)
           \<and> (\<not> vec_y p0 + (vec_y (velocity st) - 30 * delta) * delta
                 < getTerrainHeight (vec_x p) (vec_z p) \<longrightarrow>
               vec_y p = vec_y p0 + (vec_y (velocity st) - 30 * delta) * delta
               \<and> \<not> onGround s)))
   \<and> (onGround st \<longrightarrow>
        onKey Space True st =
          st\<lparr>velocity := Vector3 (vec_x (velocity st)) 15 (vec_z (velocity st))\<rparr>)
   \<and> (\<not> onGround st \<longrightarrow> onKey Space True st = st)
   \<and> ((controls st = Some True \<or> allowMouseDragFallback st)
        \<and> camera st = Some c \<and> playerObj st = Some p0 \<and> onGround st
        \<and> vec_y p0 = getTerrainHeight (vec_x p0) (vec_z p0)
        \<and> vec_x (velocity st) = 0 \<and> vec_z (velocity st) = 0
        \<and> \<not> move_fwd st \<and> \<not> move_bwd st \<and> \<not> move_left st \<and> \<not> move_right st
        \<and> 0 \<le> delta \<and> delta \<le> 1 / 2 \<longrightarrow>
        (\<exists>s. updatePlayerMovement delta look (onKey Space True st) = Inr s \<and> \<not> onGround s))"
proof (intro conjI impI)
  assume "\<not> (controls st = Some True \<or> allowMouseDragFallback st)"
  then show "updatePlayerMovement delta look st = Inr st" by (rule upm_paused)
next
  assume a: "(controls st = Some True \<or> allowMouseDragFallback st)
        \<and> camera st = Some c \<and> playerObj st = Some p0"
  then have g: "controls st = Some True \<or> allowMouseDragFallback st"
    and c: "camera st = Some c" and p: "playerObj st = Some p0" by simp_all
  show "\<exists>s p. updatePlayerMovement delta look st = Inr s \<and> playerObj s = Some p
           \<and> (vec_y p0 + (vec_y (velocity st) - 30 * delta) * delta
                 < getTerrainHeight (vec_x p) (vec_z p) \<longrightarrow>
               vec_y p = getTerrainHeight (vec_x p) (vec_z p)
               \<and> vec_y (velocity s) = 0 \<and> onGround s)
           \<and> (\<not> vec_y p0 + (vec_y (velocity st) - 30 * delta) * delta
                 < getTerrainHeight (vec_x p) (vec_z p) \<longrightarrow>
               vec_y p = vec_y p0 + (vec_y (velocity st) - 30 * delta) * delta
               \<and> \<not> onGround s)"
    using upm_clamp[OF g c p, of delta look] by blast
next
  assume "onGround st"
  then show "onKey Space True st =
          st\<lparr>velocity := Vector3 (vec_x (velocity st)) 15 (vec_z (velocity st))\<rparr>"
    by (simp add: onKey_Space)
next
  assume "\<not> onGround st"
  then show "onKey Space True st = st" by (simp add: onKey_Space)
next
  assume a: "(controls st = Some True \<or> allowMouseDragFallback st)
        \<and> camera st = Some c \<and> playerObj st = Some p0 \<and> onGround st
        \<and> vec_y p0 = getTerrainHeight (vec_x p0) (vec_z p0)
        \<and> vec_x (velocity st) = 0 \<and> vec_z (velocity st) = 0
        \<and> \<not> move_fwd st \<and> \<not> move_bwd st \<and> \<not> move_left st \<and> \<not> move_right st
        \<and> 0 \<le> delta \<and> delta \<le> 1 / 2"
  define j where "j = onKey Space True st"
  have j: "j = st\<lparr>velocity := Vector3 0 15 0\<rparr>"
    using a by (simp add: j_def onKey_Space)
  have g: "controls j = Some True \<or> allowMouseDragFallback j"
    and c: "camera j = Some c" and p: "playerObj j = Some p0"
    using a by (simp_all add: j)
  obtain s p where s: "updatePlayerMovement delta look j = Inr s" "playerObj s = Some p"
    and xz: "(\<not> move_left j \<and> \<not> move_right j \<and> \<not> move_fwd j \<and> \<not> move_bwd j
          \<and> vec_x (velocity j) = 0 \<and> vec_z (velocity j) = 0) \<longrightarrow>
          vec_x p = vec_x p0 \<and> vec_z p = vec_z p0"
    and up: "\<not> vec_y p0 + (vec_y (velocity j) - 30 * delta) * delta < getTerrainHeight (vec_x p) (vec_z p) \<longrightarrow>
          \<not> onGround s"
    using upm_clamp[OF g c p, of delta look] by blast
  have "vec_x p = vec_x p0 \<and> vec_z p = vec_z p0" using xz a by (simp add: j)
  then have h: "getTerrainHeight (vec_x p) (vec_z p) = vec_y p0" using a by simp
  have "0 \<le> (15 - 30 * delta) * delta"
    using a by (intro mult_nonneg_nonneg) simp_all
  then have "\<not> vec_y p0 + (vec_y (velocity j) - 30 * delta) * delta < getTerrainHeight (vec_x p) (vec_z p)"
    by (simp add: h j)
  with up have "\<not> onGround s" by simp
  with s show "\<exists>s. updatePlayerMovement delta look (onKey Space True st) = Inr s \<and> \<not> onGround s"
    by (auto simp: j_def)
qed

theorem ground_clamp_and_jump_witness:
  "(\<exists>s p. updatePlayerMovement (1 / 100) (Vector3 0 0 (- 1)) standing = Inr s
       \<and> playerObj s = Some p)
   \<and> onGround standing
   \<and> onKey Space True standing = standing\<lparr>velocity := Vector3 0 15 0\<rparr>
   \<and> (\<exists>s. updatePlayerMovement (1 / 100) (Vector3 0 0 (- 1)) (onKey Space True standing) = Inr s
         \<and> \<not> onGround s)
   \<and> \<not> onGround (arena [])
   \<and> onKey Space True (arena []) = arena []
   \<and> updatePlayerMovement (1 / 100) (Vector3 0 0 (- 1)) (standing\<lparr>controls := Some False\<rparr>)
       = Inr (standing\<lparr>controls := Some False\<rparr>)"
proof -
  let ?cam = "\<lparr>cam_position = Vector3 0 13.6 0, cam_rotation = Vector3 0 0 0\<rparr>"
  let ?look = "Vector3 0 0 (- 1)"
  have run: "(controls standing = Some True \<or> allowMouseDragFallback standing)
        \<and> camera standing = Some ?cam \<and> playerObj standing = Some (Vector3 0 12 0)"
    by (simp add: standing_def arena_def)
  have rest: "(controls standing = Some True \<or> allowMouseDragFallback standing)
        \<and> camera standing = Some ?cam \<and> playerObj standing = Some (Vector3 0 12 0)
        \<and> onGround standing
        \<and> vec_y (Vector3 0 12 0) = getTerrainHeight (vec_x (Vector3 0 12 0)) (vec_z (Vector3 0 12 0))
        \<and> vec_x (velocity standing) = 0 \<and> vec_z (velocity standing) = 0
        \<and> \<not> move_fwd standing \<and> \<not> move_bwd standing \<and> \<not> move_left standing
        \<and> \<not> move_right standing \<and> (0::real) \<le> 1 / 100 \<and> (1::real) / 100 \<le> 1 / 2"
    by (simp add: standing_def arena_def getTerrainHeight_origin)
  have g: "onGround standing" "\<not> onGround (arena [])"
    by (simp_all add: standing_def arena_def)
  have v: "Vector3 (vec_x (velocity standing)) 15 (vec_z (velocity standing)) = Vector3 0 15 0"
    by (simp add: standing_def arena_def)
  have paused: "\<not> (controls (standing\<lparr>controls := Some False\<rparr>) = Some True
        \<or> allowMouseDragFallback (standing\<lparr>controls := Some False\<rparr>))"
    by (simp add: standing_def arena_def)
  note t = ground_clamp_and_jump [of standing "1 / 100" ?look ?cam "Vector3 0 12 0"]
  have 1: "\<exists>s p. updatePlayerMovement (1 / 100) ?look standing = Inr s \<and> playerObj s = Some p"
    using t run by blast
  have 2: "onKey Space True standing = standing\<lparr>velocity := Vector3 0 15 0\<rparr>"
    using t g(1) v by simp
  have 3: "\<exists>s. updatePlayerMovement (1 / 100) ?look (onKey Space True standing) = Inr s
         \<and> \<not> onGround s"
    using t rest by blast
  have 4: "onKey Space True (arena []) = arena []"
    using ground_clamp_and_jump [of "arena []" "1 / 100" ?look ?cam "Vector3 0 12 0"] g(2)
    by blast
  have 5: "updatePlayerMovement (1 / 100) ?look (standing\<lparr>controls := Some False\<rparr>)
       = Inr (standing\<lparr>controls := Some False\<rparr>)"
    using ground_clamp_and_jump [of "standing\<lparr>controls := Some False\<rparr>" "1 / 100" ?look
        ?cam "Vector3 0 12 0"] paused
    by blast
  from 1 2 3 4 5 g show ?thesis by blast
qed

text \<open>
  C6 as stated fails: the frame loop does not bound \<open>\<Delta>t\<close>. The player stands on the ground
  at the origin and jumps; the next frame comes one second later, so the vertical velocity
  is \<open>15 - 30 = -15\<close>, the integrated height \<open>12 - 15\<close> is below the terrain, and the grounded
  flag is true again after that very tick.
\<close>

theorem jump_long_frame_counterexample:
  "onGround standing \<and> playerObj standing = Some (Vector3 0 12 0) \<and> getTerrainHeight 0 0 = 12
   \<and> prevTime (onKey Space True standing) = 0
   \<and> velocity (onKey Space True standing) = Vector3 0 15 0
   \<and> onGround (animate 1000 (Vector3 0 0 (- 1)) (onKey Space True standing))"
proof -
  define j where "j = (onKey Space True standing)\<lparr>prevTime := 1000\<rparr>"
  have j: "j = (arena [])\<lparr>onGround := True, velocity := Vector3 0 15 0, prevTime := 1000\<rparr>"
    by (simp add: j_def onKey_Space standing_def arena_def)
  have g: "controls j = Some True \<or> allowMouseDragFallback j"
    and c: "camera j = Some \<lparr>cam_position = Vector3 0 13.6 0, cam_rotation = Vector3 0 0 0\<rparr>"
    and p: "playerObj j = Some (Vector3 0 12 0)"
    by (simp_all add: j arena_def)
  obtain s p where s: "updatePlayerMovement 1 (Vector3 0 0 (- 1)) j = Inr s"
    and xz: "(\<not> move_left j \<and> \<not> move_right j \<and> \<not> move_fwd j \<and> \<not> move_bwd j
          \<and> vec_x (velocity j) = 0 \<and> vec_z (velocity j) = 0) \<longrightarrow>
          vec_x p = vec_x (Vector3 0 12 0) \<and> vec_z p = vec_z (Vector3 0 12 0)"
    and dn: "vec_y (Vector3 0 12 0) + (vec_y (velocity j) - 30 * 1) * 1 < getTerrainHeight (vec_x p) (vec_z p) \<longrightarrow>
          onGround s"
    using upm_clamp[OF g c p, of 1 "Vector3 0 0 (- 1)"] by blast
  have "vec_x p = 0 \<and> vec_z p = 0" using xz by (simp add: j arena_def)
  with dn have "onGround s" by (simp add: j arena_def getTerrainHeight_origin)
  with s have "onGround (state_of (updatePlayerMovement 1 (Vector3 0 0 (- 1)) j))"
    by (simp add: state_of_def)
  moreover have e: "enemies (onKey Space True standing) = []"
    by (simp add: onKey_Space standing_def arena_def)
  moreover have "(1000 - prevTime (onKey Space True standing)) / 1000 = 1"
    by (simp add: onKey_Space standing_def arena_def)
  ultimately have "onGround (animate 1000 (Vector3 0 0 (- 1)) (onKey Space True standing))"
    by (simp add: animate_no_enemies(2)[OF e] j_def)
  then show ?thesis
    by (simp add: getTerrainHeight_origin) (simp add: onKey_Space standing_def arena_def)
qed

section \<open>Facts about the reset\<close>

lemma spawn_one_new:
  "\<exists>k e. spawn_one st = st\<lparr>rand_ix := k, next_obj := next_obj st + 9, enemies := enemies st @ [e]\<rparr>
     \<and> enemy_hp e = 100 \<and> oid (mesh e) = next_obj st"
  using spawn_one_shape[of st] by force

lemma spawn_loop_new:
  "\<exists>k new. spawn_loop n st = st\<lparr>rand_ix := k, next_obj := next_obj st + 9 * n, enemies := enemies st @ new\<rparr>
     \<and> length new = n
     \<and> list_all (\<lambda>e. enemy_hp e = 100 \<and> next_obj st \<le> oid (mesh e)) new"
proof (induction n arbitrary: st)
  case 0
  show ?case by (intro exI[of _ "rand_ix st"] exI[of _ "[]"]) simp
next
  case (Suc n)
  obtain k e where e: "spawn_one st = st\<lparr>rand_ix := k, next_obj := next_obj st + 9, enemies := enemies st @ [e]\<rparr>"
    and e': "enemy_hp e = 100" "oid (mesh e) = next_obj st"
    using spawn_one_new by blast
  obtain k' new where n: "spawn_loop n (spawn_one st) = (spawn_one st)\<lparr>rand_ix := k', next_obj := next_obj (spawn_one st) + 9 * n, enemies := enemies (spawn_one st) @ new\<rparr>"
    "length new = n"
    "list_all (\<lambda>e. enemy_hp e = 100 \<and> next_obj (spawn_one st) \<le> oid (mesh e)) new"
    using Suc.IH by blast
  have "spawn_loop (Suc n) st = st\<lparr>rand_ix := k', next_obj := next_obj st + 9 * Suc n, enemies := enemies st @ (e # new)\<rparr>"
    using n(1) by (simp add: e)
  moreover have "length (e # new) = Suc n" using n(2) by simp
  moreover have "list_all (\<lambda>e. enemy_hp e = 100 \<and> next_obj st \<le> oid (mesh e)) (e # new)"
    using n(3) e' by (auto simp: e list_all_iff)
  ultimately show ?case by blast
qed

lemma startWaveSpawner_shape:
  "startWaveSpawner st =
     st\<lparr>intervals :=
          (case waveIntervalHandle st of
             None \<Rightarrow> intervals st
           | Some h \<Rightarrow> if h \<noteq> 0 then filter (\<lambda>t. fst t \<noteq> h) (intervals st) else intervals st)
          @ [(timer_seq st, WAVE_INTERVAL_MS, Wave)],
        timer_seq := Suc (timer_seq st),
        waveIntervalHandle := Some (timer_seq st)\<rparr>"
  by (simp add: startWaveSpawner_def setInterval_def clearInterval_def Let_def split: option.splits)

lemma resetGame_shape:
  assumes "playerObj st = Some p" and "scene st"
  shows "\<exists>k m new. resetGame st =
      Inr (st\<lparr>playerObj := Some (Vector3 0 (getTerrainHeight 0 0 + 1 / 10) 0),
               hp := 100, enemies := new, rand_ix := k, next_obj := m,
               velocity := Vector3 0 0 0, onGround := False,
               camera := map_option (\<lambda>c. c\<lparr>cam_rotation := Vector3 0 0 0\<rparr>) (camera st),
               intervals :=
                 (case waveIntervalHandle st of
                    None \<Rightarrow> intervals st
                  | Some h \<Rightarrow> if h \<noteq> 0 then filter (\<lambda>t. fst t \<noteq> h) (intervals st)
                              else intervals st)
                 @ [(timer_seq st, WAVE_INTERVAL_MS, Wave)],
               timer_seq := Suc (timer_seq st),
               waveIntervalHandle := Some (timer_seq st)\<rparr>)
     \<and> length new = 30
     \<and> list_all (\<lambda>e. enemy_hp e = 100 \<and> next_obj st \<le> oid (mesh e)) new"
proof -
  define st1 where "st1 = st\<lparr>playerObj := Some (Vector3 0 (getTerrainHeight 0 0 + 0.1) 0), hp := maxHp, enemies := []\<rparr>"
  obtain k new where sp: "spawn_loop 30 st1 = st1\<lparr>rand_ix := k, next_obj := next_obj st1 + 9 * 30, enemies := enemies st1 @ new\<rparr>"
    and len: "length new = 30"
    and fresh: "list_all (\<lambda>e. enemy_hp e = 100 \<and> next_obj st1 \<le> oid (mesh e)) new"
    using spawn_loop_new by blast
  have "spawnEnemies INITIAL_ENEMY_COUNT st1 = spawn_loop 30 st1"
    using assms(2) by (simp add: spawnEnemies_def st1_def INITIAL_ENEMY_COUNT_def MAX_ENEMIES_def)
  then have sp': "spawnEnemies INITIAL_ENEMY_COUNT st1 =
      st\<lparr>playerObj := Some (Vector3 0 (getTerrainHeight 0 0 + 0.1) 0), hp := maxHp,
         enemies := new, rand_ix := k, next_obj := next_obj st + 270\<rparr>"
    by (simp add: sp) (simp add: st1_def)
  have "resetGame st =
      Inr (st\<lparr>playerObj := Some (Vector3 0 (getTerrainHeight 0 0 + 1 / 10) 0),
               hp := 100, enemies := new, rand_ix := k, next_obj := next_obj st + 270,
               velocity := Vector3 0 0 0, onGround := False,
               camera := map_option (\<lambda>c. c\<lparr>cam_rotation := Vector3 0 0 0\<rparr>) (camera st),
               intervals :=
                 (case waveIntervalHandle st of
                    None \<Rightarrow> intervals st
                  | Some h \<Rightarrow> if h \<noteq> 0 then filter (\<lambda>t. fst t \<noteq> h) (intervals st)
                              else intervals st)
                 @ [(timer_seq st, WAVE_INTERVAL_MS, Wave)],
               timer_seq := Suc (timer_seq st),
               waveIntervalHandle := Some (timer_seq st)\<rparr>)"
    unfolding resetGame_def
    using assms
    by (simp add: Let_def sp'[unfolded st1_def maxHp_def, simplified] startWaveSpawner_shape
        maxHp_def split: option.splits)
  moreover have "list_all (\<lambda>e. enemy_hp e = 100 \<and> next_obj st \<le> oid (mesh e)) new"
    using fresh by (simp add: st1_def)
  ultimately show ?thesis using len by blast
qed


lemma wounded_ready: "scene wounded" "playerObj wounded = Some (Vector3 0 12 0)"
  by (simp_all add: wounded_def arena_def)

text \<open>
  C7, as amended. Every application of damage to the player leaves the health at
  \<open>max(0, health - damage)\<close>, never negative; when the health has reached 0, a reset is
  requested after 2000 ms. The reset restores the health to 100, puts the player at the
  origin 0.1 above the ground, at \<open>(0, height(0,0) + 0.1, 0)\<close>, zeroes the velocity, resets
  the camera rotation and replaces the live enemies by 30 freshly spawned ones.
\<close>

theorem damage_and_respawn:
  "hp (applyDamageToPlayer amount st) = max 0 (hp st - amount)
   \<and> 0 \<le> hp (applyDamageToPlayer amount st)
   \<and> (hp st - amount \<le> 0 \<longrightarrow>
        timeouts (applyDamageToPlayer amount st) = timeouts st @ [(timer_seq st, 2000, Respawn)])
   \<and> (0 < hp st - amount \<longrightarrow> timeouts (applyDamageToPlayer amount st) = timeouts st)
   \<and> (scene st \<and> playerObj st = Some p \<longrightarrow>
        (\<exists>s. run_callback Respawn st = Inr s
           \<and> hp s = maxHp \<and> maxHp = 100
           \<and> playerObj s = Some (Vector3 0 (getTerrainHeight 0 0 + 1 / 10) 0)
           \<and> velocity s = Vector3 0 0 0
           \<and> camera s = map_option (\<lambda>c. c\<lparr>cam_rotation := Vector3 0 0 0\<rparr>) (camera st)
           \<and> length (enemies s) = 30
           \<and> list_all (\<lambda>e. enemy_hp e = 100 \<and> next_obj st \<le> oid (mesh e)) (enemies s)))"
proof (intro conjI impI)
  show "hp (applyDamageToPlayer amount st) = max 0 (hp st - amount)"
    by (simp add: applyDamageToPlayer_def setTimeout_def Let_def)
  show "0 \<le> hp (applyDamageToPlayer amount st)"
    by (simp add: applyDamageToPlayer_def setTimeout_def Let_def)
  show "timeouts (applyDamageToPlayer amount st) = timeouts st @ [(timer_seq st, 2000, Respawn)]"
    if "hp st - amount \<le> 0"
    using that by (simp add: applyDamageToPlayer_def setTimeout_def Let_def)
  show "timeouts (applyDamageToPlayer amount st) = timeouts st" if "0 < hp st - amount"
    using that by (simp add: applyDamageToPlayer_def setTimeout_def Let_def)
next
  assume a: "scene st \<and> playerObj st = Some p"
  then have sc: "scene st" and pl: "playerObj st = Some p" by simp_all
  obtain k m new where r: "resetGame st =
      Inr (st\<lparr>playerObj := Some (Vector3 0 (getTerrainHeight 0 0 + 1 / 10) 0),
               hp := 100, enemies := new, rand_ix := k, next_obj := m,
               velocity := Vector3 0 0 0, onGround := False,
               camera := map_option (\<lambda>c. c\<lparr>cam_rotation := Vector3 0 0 0\<rparr>) (camera st),
               intervals :=
                 (case waveIntervalHandle st of
                    None \<Rightarrow> intervals st
                  | Some h \<Rightarrow> if h \<noteq> 0 then filter (\<lambda>t. fst t \<noteq> h) (intervals st)
                              else intervals st)
                 @ [(timer_seq st, WAVE_INTERVAL_MS, Wave)],
               timer_seq := Suc (timer_seq st),
               waveIntervalHandle := Some (timer_seq st)\<rparr>)"
    and n: "length new = 30"
    and f: "list_all (\<lambda>e. enemy_hp e = 100 \<and> next_obj st \<le> oid (mesh e)) new"
    using resetGame_shape[OF pl sc] by blast
  show "\<exists>s. run_callback Respawn st = Inr s
           \<and> hp s = maxHp \<and> maxHp = 100
           \<and> playerObj s = Some (Vector3 0 (getTerrainHeight 0 0 + 1 / 10) 0)
           \<and> velocity s = Vector3 0 0 0
           \<and> camera s = map_option (\<lambda>c. c\<lparr>cam_rotation := Vector3 0 0 0\<rparr>) (camera st)
           \<and> length (enemies s) = 30
           \<and> list_all (\<lambda>e. enemy_hp e = 100 \<and> next_obj st \<le> oid (mesh e)) (enemies s)"
    using n f by (simp add: run_callback_def r maxHp_def)
qed

theorem damage_and_respawn_witness:
  "hp (applyDamageToPlayer 10 wounded) = 0
   \<and> timeouts (applyDamageToPlayer 10 wounded) = [(2, 2000, Respawn)]
   \<and> (\<exists>s. run_callback Respawn wounded = Inr s \<and> hp s = 100
         \<and> velocity s = Vector3 0 0 0 \<and> length (enemies s) = 30)"
proof -
  have h: "hp wounded = 10" "timeouts wounded = []" "timer_seq wounded = 2"
    by (simp_all add: wounded_def arena_def)
  show ?thesis
    using damage_and_respawn [of 10 wounded "Vector3 0 12 0"] wounded_ready h
    by auto
qed

text \<open>
  C7 as stated fails: the reset does not put the player at ground height. The terrain is
  12 high at the origin and the player is placed at height 12.1.
\<close>

theorem respawn_height_counterexample:
  "hp (applyDamageToPlayer 10 wounded) = 0
   \<and> timeouts (applyDamageToPlayer 10 wounded) = [(2, 2000, Respawn)]
   \<and> getTerrainHeight 0 0 = 12
   \<and> playerObj (state_of (run_callback Respawn (applyDamageToPlayer 10 wounded)))
       = Some (Vector3 0 (121 / 10) 0)"
proof -
  define d where "d = applyDamageToPlayer 10 wounded"
  have d: "hp d = 0" "timeouts d = [(2, 2000, Respawn)]" "scene d"
    "playerObj d = Some (Vector3 0 12 0)"
    by (simp_all add: d_def applyDamageToPlayer_def setTimeout_def Let_def wounded_def arena_def)
  obtain k m new where "resetGame d =
      Inr (d\<lparr>playerObj := Some (Vector3 0 (getTerrainHeight 0 0 + 1 / 10) 0),
               hp := 100, enemies := new, rand_ix := k, next_obj := m,
               velocity := Vector3 0 0 0, onGround := False,
               camera := map_option (\<lambda>c. c\<lparr>cam_rotation := Vector3 0 0 0\<rparr>) (camera d),
               intervals :=
                 (case waveIntervalHandle d of
                    None \<Rightarrow> intervals d
                  | Some h \<Rightarrow> if h \<noteq> 0 then filter (\<lambda>t. fst t \<noteq> h) (intervals d)
                              else intervals d)
                 @ [(timer_seq d, WAVE_INTERVAL_MS, Wave)],
               timer_seq := Suc (timer_seq d),
               waveIntervalHandle := Some (timer_seq d)\<rparr>)"
    using resetGame_shape[OF d(4) d(3)] by blast
  then have "playerObj (state_of (run_callback Respawn d)) = Some (Vector3 0 (121 / 10) 0)"
    by (simp add: run_callback_def state_of_def getTerrainHeight_origin)
  with d show ?thesis by (simp add: d_def getTerrainHeight_origin)
qed

text \<open>
  C10, as amended. The reset leaves the kill counter, the magazine, the reserve, the
  reloading flag and the time of the last shot unchanged, as well as the movement keys, the
  pending timeouts and the camera position. It changes the player's position, the health,
  the velocity, the grounded flag, the camera rotation and the enemy collection (taking
  numbers from the random source and new objects for the enemies), and it cancels the wave
  timer and starts a new one. Without a player object it changes nothing.
\<close>

theorem resetGame_frame:
  "(playerObj st = None \<longrightarrow> resetGame st = Inr st)
   \<and> (scene st \<and> playerObj st = Some p \<longrightarrow>
        (\<exists>s. resetGame st = Inr s
           \<and> kills s = kills st \<and> ammo s = ammo st \<and> reserveAmmo s = reserveAmmo st
           \<and> reloading s = reloading st \<and> lastShot s = lastShot st
           \<and> move_fwd s = move_fwd st \<and> move_bwd s = move_bwd st
           \<and> move_left s = move_left st \<and> move_right s = move_right st
           \<and> sprint s = sprint st \<and> direction s = direction st
           \<and> timeouts s = timeouts st \<and> prevTime s = prevTime st
           \<and> controls s = controls st
           \<and> allowMouseDragFallback s = allowMouseDragFallback st
           \<and> scene s = scene st \<and> rand s = rand st
           \<and> map_option cam_position (camera s) = map_option cam_position (camera st)
           \<and> waveIntervalHandle s = Some (timer_seq st)
           \<and> timer_seq s = Suc (timer_seq st)
           \<and> intervals s =
               (case waveIntervalHandle st of
                  None \<Rightarrow> intervals st
                | Some h \<Rightarrow> if h \<noteq> 0 then filter (\<lambda>t. fst t \<noteq> h) (intervals st)
                            else intervals st)
               @ [(timer_seq st, 10000, Wave)]))"
proof (intro conjI impI)
  assume "playerObj st = None"
  then show "resetGame st = Inr st" by (simp add: resetGame_def)
next
  assume a: "scene st \<and> playerObj st = Some p"
  then have sc: "scene st" and pl: "playerObj st = Some p" by simp_all
  obtain k m new where r: "resetGame st =
      Inr (st\<lparr>playerObj := Some (Vector3 0 (getTerrainHeight 0 0 + 1 / 10) 0),
               hp := 100, enemies := new, rand_ix := k, next_obj := m,
               velocity := Vector3 0 0 0, onGround := False,
               camera := map_option (\<lambda>c. c\<lparr>cam_rotation := Vector3 0 0 0\<rparr>) (camera st),
               intervals :=
                 (case waveIntervalHandle st of
                    None \<Rightarrow> intervals st
                  | Some h \<Rightarrow> if h \<noteq> 0 then filter (\<lambda>t. fst t \<noteq> h) (intervals st)
                              else intervals st)
                 @ [(timer_seq st, WAVE_INTERVAL_MS, Wave)],
               timer_seq := Suc (timer_seq st),
               waveIntervalHandle := Some (timer_seq st)\<rparr>)"
    using resetGame_shape[OF pl sc] by blast
  have cam: "map_option cam_position (map_option (\<lambda>c. c\<lparr>cam_rotation := Vector3 0 0 0\<rparr>) (camera st))
      = map_option cam_position (camera st)"
    by (cases "camera st") simp_all
  show "\<exists>s. resetGame st = Inr s
           \<and> kills s = kills st \<and> ammo s = ammo st \<and> reserveAmmo s = reserveAmmo st
           \<and> reloading s = reloading st \<and> lastShot s = lastShot st
           \<and> move_fwd s = move_fwd st \<and> move_bwd s = move_bwd st
           \<and> move_left s = move_left st \<and> move_right s = move_right st
           \<and> sprint s = sprint st \<and> direction s = direction st
           \<and> timeouts s = timeouts st \<and> prevTime s = prevTime st
           \<and> controls s = controls st
           \<and> allowMouseDragFallback s = allowMouseDragFallback st
           \<and> scene s = scene st \<and> rand s = rand st
           \<and> map_option cam_position (camera s) = map_option cam_position (camera st)
           \<and> waveIntervalHandle s = Some (timer_seq st)
           \<and> timer_seq s = Suc (timer_seq st)
           \<and> intervals s =
               (case waveIntervalHandle st of
                  None \<Rightarrow> intervals st
                | Some h \<Rightarrow> if h \<noteq> 0 then filter (\<lambda>t. fst t \<noteq> h) (intervals st)
                            else intervals st)
               @ [(timer_seq st, 10000, Wave)]"
    by (simp add: r cam WAVE_INTERVAL_MS_def)
qed

theorem resetGame_frame_witness:
  "kills wounded = 4 \<and> ammo wounded = 7 \<and> reserveAmmo wounded = 60
   \<and> (\<exists>s. resetGame wounded = Inr s \<and> kills s = 4 \<and> ammo s = 7 \<and> reserveAmmo s = 60
         \<and> \<not> reloading s \<and> lastShot s = 0 \<and> waveIntervalHandle s = Some 2)
   \<and> resetGame (wounded\<lparr>playerObj := None\<rparr>) = Inr (wounded\<lparr>playerObj := None\<rparr>)"
proof -
  have h: "kills wounded = 4" "ammo wounded = 7" "reserveAmmo wounded = 60"
    "\<not> reloading wounded" "lastShot wounded = 0" "timer_seq wounded = 2"
    by (simp_all add: wounded_def arena_def)
  have n: "playerObj (wounded\<lparr>playerObj := None\<rparr>) = None" by simp
  show ?thesis
    using resetGame_frame [of wounded "Vector3 0 12 0"]
      resetGame_frame [of "wounded\<lparr>playerObj := None\<rparr>" "Vector3 0 12 0"] wounded_ready h n
    by auto
qed

text \<open>
  C10 as stated fails: the reset also restarts the wave timer. The timer with handle 1 is
  cleared and a new one, with handle 2, takes its place.
\<close>

theorem resetGame_wave_timer_counterexample:
  "waveIntervalHandle wounded = Some 1 \<and> intervals wounded = [(1, 10000, Wave)]
   \<and> timer_seq wounded = 2
   \<and> waveIntervalHandle (state_of (resetGame wounded)) = Some 2
   \<and> intervals (state_of (resetGame wounded)) = [(2, 10000, Wave)]
   \<and> timer_seq (state_of (resetGame wounded)) = 3"
proof -
  have h: "waveIntervalHandle wounded = Some 1" "intervals wounded = [(1, 10000, Wave)]"
    "timer_seq wounded = 2"
    by (simp_all add: wounded_def arena_def WAVE_INTERVAL_MS_def)
  obtain k m new where "resetGame wounded =
      Inr (wounded\<lparr>playerObj := Some (Vector3 0 (getTerrainHeight 0 0 + 1 / 10) 0),
               hp := 100, enemies := new, rand_ix := k, next_obj := m,
               velocity := Vector3 0 0 0, onGround := False,
               camera := map_option (\<lambda>c. c\<lparr>cam_rotation := Vector3 0 0 0\<rparr>) (camera wounded),
               intervals :=
                 (case waveIntervalHandle wounded of
                    None \<Rightarrow> intervals wounded
                  | Some h \<Rightarrow> if h \<noteq> 0 then filter (\<lambda>t. fst t \<noteq> h) (intervals wounded)
                              else intervals wounded)
                 @ [(timer_seq wounded, WAVE_INTERVAL_MS, Wave)],
               timer_seq := Suc (timer_seq wounded),
               waveIntervalHandle := Some (timer_seq wounded)\<rparr>)"
    using resetGame_shape[OF wounded_ready(2) wounded_ready(1)] by blast
  then show ?thesis
    by (simp add: state_of_def h WAVE_INTERVAL_MS_def)
qed

section \<open>Facts about the enemies\<close>

lemma vlength_nonneg: "0 \<le> vlength v"
  by (simp add: vlength_def)

lemma vlength_multiplyScalar: "vlength (multiplyScalar v s) = \<bar>s\<bar> * vlength v"
proof -
  have "vec_x v * s * (vec_x v * s) + vec_y v * s * (vec_y v * s) + vec_z v * s * (vec_z v * s)
      = (s * s) * (vec_x v * vec_x v + vec_y v * vec_y v + vec_z v * vec_z v)"
    by (simp add: algebra_simps)
  then show ?thesis
    by (simp add: vlength_def multiplyScalar_def real_sqrt_mult)
qed

lemma normalize_scaled: "vlength v \<noteq> 0 \<Longrightarrow> normalize v = multiplyScalar v (1 / vlength v)"
  by (simp add: normalize_def divideScalar_def js_or_def)

lemma vlength_normalize: "vlength v \<noteq> 0 \<Longrightarrow> vlength (normalize v) = 1"
  using vlength_nonneg[of v] by (simp add: normalize_scaled vlength_multiplyScalar)

lemma sub_addScaled: "subVectors (addScaledVector p v s) p = multiplyScalar v s"
  by (simp add: subVectors_def addScaledVector_def multiplyScalar_def)

lemma addScaled_normalize:
  "vlength (subVectors a b) \<noteq> 0 \<Longrightarrow>
   addScaledVector p (normalize (subVectors a b)) s =
   addScaledVector p (subVectors a b) (s / vlength (subVectors a b))"
  by (simp add: normalize_scaled addScaledVector_def multiplyScalar_def)

lemma neg_subVectors: "addScaledVector p (subVectors a b) (- s) = addScaledVector p (subVectors b a) s"
  by (simp add: addScaledVector_def subVectors_def algebra_simps)



lemma enemy_step_hp:
  "hp (state_of (enemy_step delta P i st)) =
     (if snd (enemy_ai delta P (enemies st ! i)) then max 0 (hp st - 10) else hp st)"
  by (simp add: enemy_step_def Let_def split_def state_of_def applyDamageToPlayer_def
      setTimeout_def PLAYER_ATTACK_DAMAGE_def)






lemma applyDamage_fields:
  "enemies (applyDamageToPlayer a st) = enemies st"
  "kills (applyDamageToPlayer a st) = kills st"
  "scene (applyDamageToPlayer a st) = scene st"
  "hp (applyDamageToPlayer a st) = max 0 (hp st - a)"
  by (simp_all add: applyDamageToPlayer_def setTimeout_def Let_def)


lemma blows_fields:
  "enemies ((applyDamageToPlayer a ^^ k) st) = enemies st"
  "kills ((applyDamageToPlayer a ^^ k) st) = kills st"
  "scene ((applyDamageToPlayer a ^^ k) st) = scene st"
  by (induction k) (simp_all add: applyDamage_fields)




















end
